theory Spec2Isabelle
  imports Main "HOL-Library.Word" "HOL-Library.Sublist"
begin

section \<open>Deployment configuration (pkg/config/deployment.go)\<close>

text \<open>
  \<open>Duration\<close> is Go's \<open>time.Duration\<close>: a signed 64-bit count of nanoseconds. The code
  only compares durations with zero and assigns constants, so no arithmetic can overflow
  and the embedding uses \<open>int\<close>; every int64 value is an \<open>int\<close>.
\<close>

type_synonym Duration = int

definition Second :: Duration where
  "Second = 1000000000"

definition Hour :: Duration where
  "Hour = 3600 * Second"

definition defaultWaitApprovalTimeout :: Duration where
  "defaultWaitApprovalTimeout = 6 * Hour"

definition defaultAnalysisQueryTimeout :: Duration where
  "defaultAnalysisQueryTimeout = 30 * Second"

text \<open>
  \<open>model.Stage\<close> is a string type with named constants. The constants the switch of
  \<open>UnmarshalJSON\<close> names are constructors; \<open>StageOther\<close> carries every other
  stage name (the zero value is the empty name).
\<close>

datatype Stage =
    StageWait
  | StageWaitApproval
  | StageAnalysis
  | StageK8sPrimaryRollout
  | StageK8sCanaryRollout
  | StageK8sCanaryClean
  | StageK8sBaselineRollout
  | StageK8sBaselineClean
  | StageK8sTrafficRouting
  | StageTerraformSync
  | StageTerraformPlan
  | StageTerraformApply
  | StageCloudRunSync
  | StageCloudRunPromote
  | StageLambdaSync
  | StageLambdaCanaryRollout
  | StageLambdaPromote
  | StageOther string

type_synonym bytes = string

record WaitStageOptions =
  waitDuration :: Duration

record WaitApprovalStageOptions =
  approvalTimeout :: Duration
  Approvers :: "string list"

text \<open>
  \<open>TemplatableAnalysisMetrics\<close> embeds \<open>AnalysisMetrics\<close>, whose declaration is in another
  file of the package; the code here reads and writes its \<open>Timeout\<close> only. The remaining
  fields of the metric are carried unread in \<open>metricFields\<close>.
\<close>

record AnalysisTemplateRef =
  templateName :: string
  templateArgs :: "(string \<times> string) list"

record TemplatableAnalysisMetrics =
  metricTimeout :: Duration
  metricFields :: string
  metricTemplate :: AnalysisTemplateRef

record AnalysisStageOptions =
  analysisDuration :: Duration
  RestartThreshold :: int
  Metrics :: "TemplatableAnalysisMetrics list"
  Logs :: "string list"
  Https :: "string list"
  Dynamic :: string

text \<open>
  The fourteen option structs for Kubernetes, Terraform, Cloud Run and Lambda stages are
  declared in other files of the package; their values are of the type parameter \<open>'o\<close>.
\<close>

record 'o PipelineStage =
  Id :: string
  Name :: Stage
  Desc :: string
  Timeout :: Duration
  WaitStageOptions :: "WaitStageOptions option"
  WaitApprovalStageOptions :: "WaitApprovalStageOptions option"
  AnalysisStageOptions :: "AnalysisStageOptions option"
  K8sPrimaryRolloutStageOptions :: "'o option"
  K8sCanaryRolloutStageOptions :: "'o option"
  K8sCanaryCleanStageOptions :: "'o option"
  K8sBaselineRolloutStageOptions :: "'o option"
  K8sBaselineCleanStageOptions :: "'o option"
  K8sTrafficRoutingStageOptions :: "'o option"
  TerraformSyncStageOptions :: "'o option"
  TerraformPlanStageOptions :: "'o option"
  TerraformApplyStageOptions :: "'o option"
  CloudRunSyncStageOptions :: "'o option"
  CloudRunPromoteStageOptions :: "'o option"
  LambdaSyncStageOptions :: "'o option"
  LambdaCanaryRolloutStageOptions :: "'o option"
  LambdaPromoteStageOptions :: "'o option"

text \<open>The zero value \<open>PipelineStage{}\<close>: empty strings, zero timeout, every pointer nil.\<close>

definition PipelineStage_zero :: "'o PipelineStage" where
  "PipelineStage_zero =
     \<lparr>Id = [], Name = StageOther [], Desc = [], Timeout = 0,
      WaitStageOptions = None, WaitApprovalStageOptions = None, AnalysisStageOptions = None,
      K8sPrimaryRolloutStageOptions = None, K8sCanaryRolloutStageOptions = None,
      K8sCanaryCleanStageOptions = None, K8sBaselineRolloutStageOptions = None,
      K8sBaselineCleanStageOptions = None, K8sTrafficRoutingStageOptions = None,
      TerraformSyncStageOptions = None, TerraformPlanStageOptions = None,
      TerraformApplyStageOptions = None, CloudRunSyncStageOptions = None,
      CloudRunPromoteStageOptions = None, LambdaSyncStageOptions = None,
      LambdaCanaryRolloutStageOptions = None, LambdaPromoteStageOptions = None\<rparr>"

record DeploymentCommitMatcher =
  matcherQuickSync :: string
  matcherPipeline :: string

record 'o DeploymentPipeline =
  Stages :: "'o PipelineStage list"

record SealedSecretMapping =
  sealedPath :: string
  OutFilename :: string
  OutDir :: string

record 'o GenericDeploymentSpec =
  CommitMatcher :: DeploymentCommitMatcher
  Pipeline :: "'o DeploymentPipeline option"
  SealedSecrets :: "SealedSecretMapping list"
  TriggerPaths :: "string list"
  specTimeout :: Duration

text \<open>
  A Go slice read at an index outside \<open>0 .. len-1\<close> panics; the panic is a value of the
  model.
\<close>

datatype panic = IndexOutOfRange int nat

text \<open>
  \<open>GetStage(index int32)\<close>: only the upper bound is compared (\<open>int(index) >= len\<close>, a
  signed comparison after sign extension); the slice read that follows checks both bounds.
\<close>

definition GetStage :: "'o GenericDeploymentSpec \<Rightarrow> 32 word \<Rightarrow> panic + ('o PipelineStage \<times> bool)" where
  "GetStage s index =
     (case Pipeline s of
        None \<Rightarrow> Inr (PipelineStage_zero, False)
      | Some p \<Rightarrow>
          if sint index \<ge> int (length (Stages p)) then Inr (PipelineStage_zero, False)
          else if sint index < 0 then Inl (IndexOutOfRange (sint index) (length (Stages p)))
          else Inr (Stages p ! nat (sint index), True))"

text \<open>A Go \<open>error\<close> is represented by its message; \<open>nil\<close> is \<open>None\<close>.\<close>

type_synonym error = string

record genericPipelineStage =
  gsId :: string
  gsName :: Stage
  gsDesc :: string
  gsTimeout :: Duration
  With :: bytes

text \<open>
  \<open>json.Unmarshal\<close> belongs to the standard library and is a parameter: for each target
  type, the value it leaves in a zero-valued target and the error it returns. A failed
  decode may leave the target partly filled, so both components are kept.
  \<open>emptyOptions\<close> is the zero value of the option struct selected by a stage name.
\<close>

record 'o Json =
  unmarshalGeneric :: "bytes \<Rightarrow> genericPipelineStage \<times> error option"
  unmarshalWait :: "bytes \<Rightarrow> WaitStageOptions \<times> error option"
  unmarshalWaitApproval :: "bytes \<Rightarrow> WaitApprovalStageOptions \<times> error option"
  unmarshalAnalysis :: "bytes \<Rightarrow> AnalysisStageOptions \<times> error option"
  unmarshalOptions :: "Stage \<Rightarrow> bytes \<Rightarrow> 'o \<times> error option"
  emptyOptions :: "Stage \<Rightarrow> 'o"

definition WaitStageOptions_zero :: WaitStageOptions where
  "WaitStageOptions_zero = \<lparr>waitDuration = 0\<rparr>"

definition WaitApprovalStageOptions_zero :: WaitApprovalStageOptions where
  "WaitApprovalStageOptions_zero = \<lparr>approvalTimeout = 0, Approvers = []\<rparr>"

definition AnalysisStageOptions_zero :: AnalysisStageOptions where
  "AnalysisStageOptions_zero =
     \<lparr>analysisDuration = 0, RestartThreshold = 0, Metrics = [], Logs = [], Https = [],
      Dynamic = []\<rparr>"

text \<open>
  The step every case of the switch shares: allocate the zero-valued options, and decode
  \<open>with\<close> into them only when \<open>len(gs.With) > 0\<close>.
\<close>

definition decodeWith :: "(bytes \<Rightarrow> 'a \<times> error option) \<Rightarrow> 'a \<Rightarrow> bytes \<Rightarrow> 'a \<times> error option" where
  "decodeWith unmarshal zero w = (if length w > 0 then unmarshal w else (zero, None))"

text \<open>The loop over \<open>Metrics[i]\<close> that fills in the default query timeout.\<close>

fun defaultMetricTimeouts :: "TemplatableAnalysisMetrics list \<Rightarrow> TemplatableAnalysisMetrics list" where
  "defaultMetricTimeouts [] = []"
| "defaultMetricTimeouts (m # ms) =
     (if metricTimeout m \<le> 0 then m\<lparr>metricTimeout := defaultAnalysisQueryTimeout\<rparr> else m)
       # defaultMetricTimeouts ms"

definition UnmarshalJSON :: "'o Json \<Rightarrow> 'o PipelineStage \<Rightarrow> bytes \<Rightarrow> 'o PipelineStage \<times> error option" where
  "UnmarshalJSON J s0 data =
     (case unmarshalGeneric J data of
        (gs, Some err) \<Rightarrow> (s0, Some err)
      | (gs, None) \<Rightarrow>
          let s = s0\<lparr>Id := gsId gs, Name := gsName gs, Desc := gsDesc gs, Timeout := gsTimeout gs\<rparr>;
              w = With gs;
              other = decodeWith (unmarshalOptions J (Name s)) (emptyOptions J (Name s)) w
          in case Name s of
               StageWait \<Rightarrow>
                 (let (opts, err) = decodeWith (unmarshalWait J) WaitStageOptions_zero w
                  in (s\<lparr>WaitStageOptions := Some opts\<rparr>, err))
             | StageWaitApproval \<Rightarrow>
                 (let (opts, err) = decodeWith (unmarshalWaitApproval J) WaitApprovalStageOptions_zero w;
                      opts = (if approvalTimeout opts \<le> 0
                              then opts\<lparr>approvalTimeout := defaultWaitApprovalTimeout\<rparr> else opts)
                  in (s\<lparr>WaitApprovalStageOptions := Some opts\<rparr>, err))
             | StageAnalysis \<Rightarrow>
                 (let (opts, err) = decodeWith (unmarshalAnalysis J) AnalysisStageOptions_zero w;
                      opts = opts\<lparr>Metrics := defaultMetricTimeouts (Metrics opts)\<rparr>
                  in (s\<lparr>AnalysisStageOptions := Some opts\<rparr>, err))
             | StageK8sPrimaryRollout \<Rightarrow> (s\<lparr>K8sPrimaryRolloutStageOptions := Some (fst other)\<rparr>, snd other)
             | StageK8sCanaryRollout \<Rightarrow> (s\<lparr>K8sCanaryRolloutStageOptions := Some (fst other)\<rparr>, snd other)
             | StageK8sCanaryClean \<Rightarrow> (s\<lparr>K8sCanaryCleanStageOptions := Some (fst other)\<rparr>, snd other)
             | StageK8sBaselineRollout \<Rightarrow> (s\<lparr>K8sBaselineRolloutStageOptions := Some (fst other)\<rparr>, snd other)
             | StageK8sBaselineClean \<Rightarrow> (s\<lparr>K8sBaselineCleanStageOptions := Some (fst other)\<rparr>, snd other)
             | StageK8sTrafficRouting \<Rightarrow> (s\<lparr>K8sTrafficRoutingStageOptions := Some (fst other)\<rparr>, snd other)
             | StageTerraformSync \<Rightarrow> (s\<lparr>TerraformSyncStageOptions := Some (fst other)\<rparr>, snd other)
             | StageTerraformPlan \<Rightarrow> (s\<lparr>TerraformPlanStageOptions := Some (fst other)\<rparr>, snd other)
             | StageTerraformApply \<Rightarrow> (s\<lparr>TerraformApplyStageOptions := Some (fst other)\<rparr>, snd other)
             | StageCloudRunSync \<Rightarrow> (s\<lparr>CloudRunSyncStageOptions := Some (fst other)\<rparr>, snd other)
             | StageCloudRunPromote \<Rightarrow> (s\<lparr>CloudRunPromoteStageOptions := Some (fst other)\<rparr>, snd other)
             | StageLambdaSync \<Rightarrow> (s\<lparr>LambdaSyncStageOptions := Some (fst other)\<rparr>, snd other)
             | StageLambdaPromote \<Rightarrow> (s\<lparr>LambdaPromoteStageOptions := Some (fst other)\<rparr>, snd other)
             | StageLambdaCanaryRollout \<Rightarrow> (s\<lparr>LambdaCanaryRolloutStageOptions := Some (fst other)\<rparr>, snd other)
             | StageOther n \<Rightarrow> (s, Some (''unsupported stage name: '' @ n)))"

definition AnalysisStageOptions_Validate :: "AnalysisStageOptions \<Rightarrow> error option" where
  "AnalysisStageOptions_Validate a =
     (if analysisDuration a = 0 then Some ''the ANALYSIS stage requires duration field'' else None)"

text \<open>The loop of \<open>Validate\<close> over the pipeline stages; it returns at the first error.\<close>

fun validateStages :: "'o PipelineStage list \<Rightarrow> error option" where
  "validateStages [] = None"
| "validateStages (stage # rest) =
     (case AnalysisStageOptions stage of
        None \<Rightarrow> validateStages rest
      | Some a \<Rightarrow>
          (case AnalysisStageOptions_Validate a of
             Some err \<Rightarrow> Some err
           | None \<Rightarrow> validateStages rest))"

text \<open>\<open>Validate\<close> has a pointer receiver: the spec it leaves behind is returned with the error.\<close>

definition Validate :: "'o GenericDeploymentSpec \<Rightarrow> 'o GenericDeploymentSpec \<times> error option" where
  "Validate s0 =
     (let s = (if specTimeout s0 = 0 then s0\<lparr>specTimeout := 6 * Hour\<rparr> else s0)
      in (s, case Pipeline s of None \<Rightarrow> None | Some p \<Rightarrow> validateStages (Stages p)))"

subsection \<open>Observations used to state the properties\<close>

text \<open>The stage names \<open>UnmarshalJSON\<close> has a case for.\<close>

definition supportedStage :: "Stage \<Rightarrow> bool" where
  "supportedStage n = (case n of StageOther _ \<Rightarrow> False | _ \<Rightarrow> True)"

text \<open>Whether the options pointer that belongs to a stage name is set.\<close>

definition optionsSet :: "'o PipelineStage \<Rightarrow> Stage \<Rightarrow> bool" where
  "optionsSet s n =
     (case n of
        StageWait \<Rightarrow> WaitStageOptions s \<noteq> None
      | StageWaitApproval \<Rightarrow> WaitApprovalStageOptions s \<noteq> None
      | StageAnalysis \<Rightarrow> AnalysisStageOptions s \<noteq> None
      | StageK8sPrimaryRollout \<Rightarrow> K8sPrimaryRolloutStageOptions s \<noteq> None
      | StageK8sCanaryRollout \<Rightarrow> K8sCanaryRolloutStageOptions s \<noteq> None
      | StageK8sCanaryClean \<Rightarrow> K8sCanaryCleanStageOptions s \<noteq> None
      | StageK8sBaselineRollout \<Rightarrow> K8sBaselineRolloutStageOptions s \<noteq> None
      | StageK8sBaselineClean \<Rightarrow> K8sBaselineCleanStageOptions s \<noteq> None
      | StageK8sTrafficRouting \<Rightarrow> K8sTrafficRoutingStageOptions s \<noteq> None
      | StageTerraformSync \<Rightarrow> TerraformSyncStageOptions s \<noteq> None
      | StageTerraformPlan \<Rightarrow> TerraformPlanStageOptions s \<noteq> None
      | StageTerraformApply \<Rightarrow> TerraformApplyStageOptions s \<noteq> None
      | StageCloudRunSync \<Rightarrow> CloudRunSyncStageOptions s \<noteq> None
      | StageCloudRunPromote \<Rightarrow> CloudRunPromoteStageOptions s \<noteq> None
      | StageLambdaSync \<Rightarrow> LambdaSyncStageOptions s \<noteq> None
      | StageLambdaCanaryRollout \<Rightarrow> LambdaCanaryRolloutStageOptions s \<noteq> None
      | StageLambdaPromote \<Rightarrow> LambdaPromoteStageOptions s \<noteq> None
      | StageOther _ \<Rightarrow> False)"

text \<open>
  The error of the second pass for a stage name and a \<open>with\<close> payload: that of decoding the
  payload against the options type the name selects, when there is a payload to decode.
\<close>

definition withError :: "'o Json \<Rightarrow> Stage \<Rightarrow> bytes \<Rightarrow> error option" where
  "withError J n w =
     (if w = [] then None
      else case n of
             StageWait \<Rightarrow> snd (unmarshalWait J w)
           | StageWaitApproval \<Rightarrow> snd (unmarshalWaitApproval J w)
           | StageAnalysis \<Rightarrow> snd (unmarshalAnalysis J w)
           | StageOther _ \<Rightarrow> None
           | _ \<Rightarrow> snd (unmarshalOptions J n w))"

text \<open>
  The fourteen option pointers whose struct types are declared elsewhere, by stage name, and
  the three stage names whose option structs are declared in this file.
\<close>

definition otherOptions :: "'o PipelineStage \<Rightarrow> Stage \<Rightarrow> 'o option" where
  "otherOptions s n =
     (case n of
        StageK8sPrimaryRollout \<Rightarrow> K8sPrimaryRolloutStageOptions s
      | StageK8sCanaryRollout \<Rightarrow> K8sCanaryRolloutStageOptions s
      | StageK8sCanaryClean \<Rightarrow> K8sCanaryCleanStageOptions s
      | StageK8sBaselineRollout \<Rightarrow> K8sBaselineRolloutStageOptions s
      | StageK8sBaselineClean \<Rightarrow> K8sBaselineCleanStageOptions s
      | StageK8sTrafficRouting \<Rightarrow> K8sTrafficRoutingStageOptions s
      | StageTerraformSync \<Rightarrow> TerraformSyncStageOptions s
      | StageTerraformPlan \<Rightarrow> TerraformPlanStageOptions s
      | StageTerraformApply \<Rightarrow> TerraformApplyStageOptions s
      | StageCloudRunSync \<Rightarrow> CloudRunSyncStageOptions s
      | StageCloudRunPromote \<Rightarrow> CloudRunPromoteStageOptions s
      | StageLambdaSync \<Rightarrow> LambdaSyncStageOptions s
      | StageLambdaCanaryRollout \<Rightarrow> LambdaCanaryRolloutStageOptions s
      | StageLambdaPromote \<Rightarrow> LambdaPromoteStageOptions s
      | _ \<Rightarrow> None)"

definition ownOptionsStage :: "Stage \<Rightarrow> bool" where
  "ownOptionsStage n = (n = StageWait \<or> n = StageWaitApproval \<or> n = StageAnalysis)"

text \<open>
  The options a stage holds for a stage name: the value behind the pointer that belongs to
  the name, tagged with its kind, or \<open>None\<close> when that pointer is nil (and for a name
  without a pointer).
\<close>

datatype 'o StageOptions =
    WaitOptions WaitStageOptions
  | WaitApprovalOptions WaitApprovalStageOptions
  | AnalysisOptions AnalysisStageOptions
  | OtherOptions 'o

definition stageOptions :: "'o PipelineStage \<Rightarrow> Stage \<Rightarrow> 'o StageOptions option" where
  "stageOptions s n =
     (case n of
        StageWait \<Rightarrow> map_option WaitOptions (WaitStageOptions s)
      | StageWaitApproval \<Rightarrow> map_option WaitApprovalOptions (WaitApprovalStageOptions s)
      | StageAnalysis \<Rightarrow> map_option AnalysisOptions (AnalysisStageOptions s)
      | StageOther _ \<Rightarrow> None
      | _ \<Rightarrow> map_option OtherOptions (otherOptions s n))"

subsection \<open>A concrete decoder and a concrete spec, for evaluating the model\<close>

text \<open>
  A decoder that knows four stage documents: a WaitApproval stage without \<open>with\<close>, an
  Analysis stage with two metrics (one without a query timeout), a canary stage whose
  \<open>with\<close> does not decode, and a stage of a name the switch has no case for. Every other
  input is rejected in the first pass.
\<close>

definition exampleJson :: "unit Json" where
  "exampleJson =
     \<lparr>unmarshalGeneric = (\<lambda>d.
        if d = ''approval'' then
          (\<lparr>gsId = ''s1'', gsName = StageWaitApproval, gsDesc = [], gsTimeout = 0, With = []\<rparr>, None)
        else if d = ''analysis'' then
          (\<lparr>gsId = ''s2'', gsName = StageAnalysis, gsDesc = [], gsTimeout = 0, With = ''metrics''\<rparr>, None)
        else if d = ''canary'' then
          (\<lparr>gsId = ''s3'', gsName = StageK8sCanaryRollout, gsDesc = [], gsTimeout = 0, With = ''bad''\<rparr>, None)
        else if d = ''sync'' then
          (\<lparr>gsId = ''s4'', gsName = StageOther ''K8S_SYNC'', gsDesc = [], gsTimeout = 0, With = []\<rparr>, None)
        else (\<lparr>gsId = [], gsName = StageOther [], gsDesc = [], gsTimeout = 0, With = []\<rparr>,
              Some ''unexpected end of JSON input'')),
      unmarshalWait = (\<lambda>w. (WaitStageOptions_zero, None)),
      unmarshalWaitApproval = (\<lambda>w. (WaitApprovalStageOptions_zero, None)),
      unmarshalAnalysis = (\<lambda>w.
        (AnalysisStageOptions_zero
           \<lparr>analysisDuration := 60 * Second,
            Metrics :=
              [\<lparr>metricTimeout = 0, metricFields = ''m0'',
                metricTemplate = \<lparr>templateName = [], templateArgs = []\<rparr>\<rparr>,
               \<lparr>metricTimeout = 5 * Second, metricFields = ''m1'',
                metricTemplate = \<lparr>templateName = [], templateArgs = []\<rparr>\<rparr>]\<rparr>, None)),
      unmarshalOptions = (\<lambda>n w. ((), if w = ''bad'' then Some ''cannot unmarshal'' else None)),
      emptyOptions = (\<lambda>n. ())\<rparr>"

definition exampleSpec :: "unit GenericDeploymentSpec" where
  "exampleSpec =
     \<lparr>CommitMatcher = \<lparr>matcherQuickSync = [], matcherPipeline = []\<rparr>,
      Pipeline = None, SealedSecrets = [], TriggerPaths = [], specTimeout = 0\<rparr>"

section \<open>Kubernetes planner (pkg/app/piped/planner/kubernetes/kubernetes.go)\<close>

subsection \<open>The functions of package strings that the planner calls\<close>

text \<open>\<open>strings.Contains(s, substr)\<close>: \<open>substr\<close> occurs in \<open>s\<close> as a contiguous run of bytes.\<close>

fun Contains :: "string \<Rightarrow> string \<Rightarrow> bool" where
  "Contains [] substr = (substr = [])"
| "Contains (c # cs) substr = (prefix substr (c # cs) \<or> Contains cs substr)"

text \<open>
  \<open>strings.Split(s, sep)\<close> for a separator of one byte: the pieces between the separators,
  never an empty slice (an \<open>s\<close> without separator gives the one piece \<open>s\<close>).
\<close>

fun Split :: "string \<Rightarrow> char \<Rightarrow> string list" where
  "Split [] sep = [[]]"
| "Split (c # cs) sep =
     (if c = sep then [] # Split cs sep
      else (case Split cs sep of [] \<Rightarrow> [[c]] | p # ps \<Rightarrow> (c # p) # ps))"

text \<open>\<open>strings.Join(elems, sep)\<close>.\<close>

fun Join :: "string list \<Rightarrow> string \<Rightarrow> string" where
  "Join [] sep = []"
| "Join [x] sep = x"
| "Join (x # y # ys) sep = x @ sep @ Join (y # ys) sep"

subsection \<open>Manifests and diff results (package provider)\<close>

text \<open>
  The declarations of \<open>provider.Manifest\<close>, its \<open>Key\<close> and \<open>provider.DiffResult\<close> are in
  another package; the planner reads \<open>Key.Name\<close> of a manifest and \<open>Path\<close>, \<open>Before\<close> and
  \<open>After\<close> of a diff result, the last two as strings. A manifest's content is read by
  \<open>provider.Diff\<close> only and is carried as text.
\<close>

record ResourceKey =
  APIVersion :: string
  Kind :: string
  Namespace :: string
  KeyName :: string

record Manifest =
  Key :: ResourceKey
  Body :: string

record DiffResult =
  Path :: string
  Before :: string
  After :: string

text \<open>
  The two queries of the planner are regular expressions anchored at both ends, built from
  literal bytes, \<open>.\<close> (any character but a newline) and \<open>\d+\<close> (one or more decimal
  digits). Paths are sequences of bytes here, so \<open>.\<close> stands for one byte; Go matches one
  UTF-8 encoded character, which is the same on the ASCII paths of a manifest.
\<close>

datatype atom = Lit char | AnyChar | Digits

fun matches :: "atom list \<Rightarrow> string \<Rightarrow> bool" where
  "matches [] s = (s = [])"
| "matches (a # r) [] = False"
| "matches (Lit c # r) (x # xs) = (x = c \<and> matches r xs)"
| "matches (AnyChar # r) (x # xs) = (x \<noteq> CHR 0x0A \<and> matches r xs)"
| "matches (Digits # r) (x # xs) =
     (x \<in> set ''0123456789'' \<and> (matches r xs \<or> matches (Digits # r) xs))"

text \<open>\<open>^spec.template.spec.containers.\[\d+\].image$\<close>\<close>

definition containerImageQuery :: "atom list" where
  "containerImageQuery =
     map Lit ''spec'' @ [AnyChar] @ map Lit ''template'' @ [AnyChar] @ map Lit ''spec''
     @ [AnyChar] @ map Lit ''containers'' @ [AnyChar, Lit CHR ''['', Digits, Lit CHR '']'', AnyChar]
     @ map Lit ''image''"

text \<open>\<open>^spec.replicas$\<close>\<close>

definition replicasQuery :: "atom list" where
  "replicasQuery = map Lit ''spec'' @ [AnyChar] @ map Lit ''replicas''"

text \<open>
  Modelled from the spec: the methods \<open>FindByPrefix\<close>, \<open>FindAll\<close> and \<open>Find\<close> of
  \<open>provider.DiffResultList\<close> are not among the source files. The diff output is a list
  of difference records (path, before, after); \<open>FindByPrefix\<close> keeps the records whose
  path starts with the prefix, \<open>FindAll\<close> those whose path matches the query, both in
  list order, and \<open>Find\<close> gives the first record whose path matches, if any.
\<close>

definition FindByPrefix :: "DiffResult list \<Rightarrow> string \<Rightarrow> DiffResult list" where
  "FindByPrefix l p = filter (\<lambda>d. prefix p (Path d)) l"

definition FindAll :: "DiffResult list \<Rightarrow> atom list \<Rightarrow> DiffResult list" where
  "FindAll l query = filter (\<lambda>d. matches query (Path d)) l"

definition Find :: "DiffResult list \<Rightarrow> atom list \<Rightarrow> DiffResult option" where
  "Find l query = find (\<lambda>d. matches query (Path d)) l"

text \<open>
  The functions of the repository that the planner calls and that are not among the source
  files are parameters: \<open>Key.IsDeployment\<close>, \<open>provider.Diff\<close> (with the path prefix of
  its \<open>WithPathPrefix\<close> option), and the two pipeline builders, which receive the reading
  of the clock. \<open>'st\<close> is the type of a stage of the plan (\<open>model.PipelineStage\<close>).
\<close>

type_synonym Time = int

record ('o, 'st) Externals =
  IsDeployment :: "ResourceKey \<Rightarrow> bool"
  Diff :: "Manifest \<Rightarrow> Manifest \<Rightarrow> string \<Rightarrow> DiffResult list"
  buildPipeline :: "Time \<Rightarrow> 'st list"
  buildProgressivePipeline :: "'o DeploymentPipeline option \<Rightarrow> Time \<Rightarrow> 'st list"

subsection \<open>The planner's own functions\<close>

fun findWorkload :: "('o, 'st) Externals \<Rightarrow> Manifest list \<Rightarrow> Manifest option" where
  "findWorkload E [] = None"
| "findWorkload E (m # ms) = (if \<not> IsDeployment E (Key m) then findWorkload E ms else Some m)"

text \<open>
  \<open>parseContainerImage\<close>: \<open>parts[0]\<close> and \<open>paths[len(paths)-1]\<close> are always in range,
  since \<open>strings.Split\<close> never returns an empty slice.
\<close>

definition parseContainerImage :: "string \<Rightarrow> string \<times> string" where
  "parseContainerImage img =
     (let parts = Split img CHR '':'';
          tag = (if length parts = 2 then parts ! 1 else []);
          paths = Split (hd parts) CHR ''/'';
          name = last paths
      in (name, tag))"

text \<open>The body of the loop of \<open>checkImageChange\<close>: the text for one image diff.\<close>

definition imageText :: "DiffResult \<Rightarrow> string" where
  "imageText d =
     (let (beforeName, beforeTag) = parseContainerImage (Before d);
          (afterName, afterTag) = parseContainerImage (After d)
      in if beforeName = afterName
         then ''image '' @ beforeName @ '' from '' @ beforeTag @ '' to '' @ afterTag
         else ''image '' @ beforeName @ '':'' @ beforeTag @ '' to '' @ afterName @ '':'' @ afterTag)"

fun imageTexts :: "DiffResult list \<Rightarrow> string list" where
  "imageTexts [] = []"
| "imageTexts (d # ds) = imageText d # imageTexts ds"

definition checkImageChange :: "DiffResult list \<Rightarrow> string \<times> bool" where
  "checkImageChange diffList =
     (let imageDiffs = FindAll diffList containerImageQuery
      in if length imageDiffs = 0 then ([], False)
         else (''Progressive deployment because of updating ''
                 @ Join (imageTexts imageDiffs) '', '' @ ''.'', True))"

definition checkReplicasChange :: "DiffResult list \<Rightarrow> string \<times> bool" where
  "checkReplicasChange diffList =
     (case Find diffList replicasQuery of
        None \<Rightarrow> ([], False)
      | Some diff \<Rightarrow> (''Scale workload from '' @ Before diff @ '' to '' @ After diff @ ''.'', True))"

definition decideStrategy :: "('o, 'st) Externals \<Rightarrow> Manifest list \<Rightarrow> Manifest list \<Rightarrow> bool \<times> string" where
  "decideStrategy E olds news =
     (case findWorkload E olds of
        None \<Rightarrow>
          (False, ''Apply all manifests because it was unable to find the currently running workloads.'')
      | Some oldWorkload \<Rightarrow>
          (case findWorkload E news of
             None \<Rightarrow>
               (False, ''Apply all manifests because it was unable to find workloads in the new manifests.'')
           | Some newWorkload \<Rightarrow>
               (let workloadDiffs = Diff E oldWorkload newWorkload ''spec'';
                    templateDiffs = FindByPrefix workloadDiffs ''spec.template''
                in if length templateDiffs > 0 then
                     (case checkImageChange templateDiffs of
                        (msg, True) \<Rightarrow> (True, msg)
                      | (msg, False) \<Rightarrow>
                          (True, ''Progressive deployment because pod template of workload ''
                                   @ KeyName (Key newWorkload) @ '' was changed.''))
                   else
                     (case checkReplicasChange workloadDiffs of
                        (msg, True) \<Rightarrow> (False, msg)
                      | (msg, False) \<Rightarrow> (False, ''Apply all manifests'')))))"

subsection \<open>Plan\<close>

text \<open>
  The fields of \<open>planner.Input\<close> and of the deployment record that \<open>Plan\<close> reads, with
  the identifying fields of the deployment and its trigger beside them. \<open>Logger\<close> is a sink
  and is left out.
\<close>

record Commit =
  Hash :: string
  Message :: string
  Author :: string

record DeploymentTrigger =
  Commit :: Commit
  Commander :: string

record Deployment =
  DeploymentId :: string
  ApplicationId :: string
  Trigger :: DeploymentTrigger

record 'o KubernetesDeploymentSpec =
  k8sInput :: string
  k8sPipeline :: "'o DeploymentPipeline option"

record 'o Input =
  Deployment :: Deployment
  MostRecentSuccessfulCommitHash :: string
  KubernetesDeploymentSpec :: "'o KubernetesDeploymentSpec option"
  RepoDir :: string
  AppDir :: string

record 'st Output =
  OutputStages :: "'st list"
  Description :: string

definition Output_zero :: "'st Output" where
  "Output_zero = \<lparr>OutputStages = [], Description = []\<rparr>"

text \<open>
  What lies outside the process: the clock, and the repository's working tree as the
  provider and \<open>Repo.Checkout\<close> see it. The provider is made from \<open>RepoDir\<close>, \<open>AppDir\<close>
  and \<open>cfg.Input\<close>; what \<open>LoadManifests\<close> returns depends on the commit checked out
  (\<open>None\<close>: the commit the working tree is at when \<open>Plan\<close> starts, the new one).
\<close>

record ProviderArgs =
  pvRepoDir :: string
  pvAppDir :: string
  pvInput :: string

record World =
  Now :: Time
  Init :: "ProviderArgs \<Rightarrow> error option"
  LoadManifests :: "ProviderArgs \<Rightarrow> string option \<Rightarrow> Manifest list \<times> error option"
  Checkout :: "string \<Rightarrow> error option"

text \<open>The operations on the working tree that a run performs, in order.\<close>

datatype operation = OpInit | OpLoadManifests "string option" | OpCheckout string

definition NewProvider :: "string \<Rightarrow> string \<Rightarrow> string \<Rightarrow> ProviderArgs" where
  "NewProvider repoDir appDir input = \<lparr>pvRepoDir = repoDir, pvAppDir = appDir, pvInput = input\<rparr>"

text \<open>
  \<open>Plan\<close> returns its named results \<open>out\<close> and \<open>err\<close>; on every error path \<open>out\<close> still
  has its zero value. The third component lists the operations performed.
\<close>

definition Plan :: "('o, 'st) Externals \<Rightarrow> World \<Rightarrow> 'o Input \<Rightarrow> ('st Output \<times> error option) \<times> operation list" where
  "Plan E W inp =
     (case KubernetesDeploymentSpec inp of
        None \<Rightarrow>
          ((Output_zero, Some ''malfored deployment configuration: missing KubernetesDeploymentSpec''), [])
      | Some cfg \<Rightarrow>
          if MostRecentSuccessfulCommitHash inp = [] then
            ((\<lparr>OutputStages = buildPipeline E (Now W),
               Description = ''Apply all manifests because it was unable to find the most recent successful commit.''\<rparr>,
              None), [])
          else if Contains (Message (Commit (Trigger (Deployment inp)))) ''/pipecd rollback '' then
            ((\<lparr>OutputStages = buildPipeline E (Now W),
               Description = ''Rollback from commit '' @ MostRecentSuccessfulCommitHash inp @ ''.''\<rparr>,
              None), [])
          else
            (let pv = NewProvider (RepoDir inp) (AppDir inp) (k8sInput cfg);
                 h = MostRecentSuccessfulCommitHash inp
             in case Init W pv of
                  Some err \<Rightarrow> ((Output_zero, Some err), [OpInit])
                | None \<Rightarrow>
                   (case LoadManifests W pv None of
                      (newManifests, Some err) \<Rightarrow>
                        ((Output_zero, Some (''failed to load new manifests: '' @ err)),
                         [OpInit, OpLoadManifests None])
                    | (newManifests, None) \<Rightarrow>
                       (case Checkout W h of
                          Some err \<Rightarrow>
                            ((Output_zero, Some (''failed to checkout to commit '' @ h @ '': '' @ err)),
                             [OpInit, OpLoadManifests None, OpCheckout h])
                        | None \<Rightarrow>
                           (case LoadManifests W pv (Some h) of
                              (oldManifests, Some err) \<Rightarrow>
                                ((Output_zero, Some (''failed to load previously deployed manifests: '' @ err)),
                                 [OpInit, OpLoadManifests None, OpCheckout h, OpLoadManifests (Some h)])
                            | (oldManifests, None) \<Rightarrow>
                               (let (progressive, desc) = decideStrategy E oldManifests newManifests
                                in ((\<lparr>OutputStages =
                                        (if progressive
                                         then buildProgressivePipeline E (k8sPipeline cfg) (Now W)
                                         else buildPipeline E (Now W)),
                                      Description = desc\<rparr>, None),
                                    [OpInit, OpLoadManifests None, OpCheckout h,
                                     OpLoadManifests (Some h)])))))))"

subsection \<open>Concrete manifests, a concrete working tree and concrete inputs\<close>

text \<open>
  A deployment manifest \<open>app\<close> in three versions: image \<open>app:1.2\<close> with 3 replicas, image
  \<open>app:1.3\<close> with 3 replicas, and image \<open>app:1.2\<close> with 5 replicas. \<open>exampleDiff\<close>
  tabulates the diff results between them under the prefix \<open>spec\<close>.
\<close>

definition deploymentManifest :: "string \<Rightarrow> Manifest" where
  "deploymentManifest body =
     \<lparr>Key = \<lparr>APIVersion = ''apps/v1'', Kind = ''Deployment'', Namespace = ''default'',
              KeyName = ''app''\<rparr>,
      Body = body\<rparr>"

definition serviceManifest :: Manifest where
  "serviceManifest =
     \<lparr>Key = \<lparr>APIVersion = ''v1'', Kind = ''Service'', Namespace = ''default'', KeyName = ''app''\<rparr>,
      Body = ''port 80''\<rparr>"

definition imageDiff :: DiffResult where
  "imageDiff =
     \<lparr>Path = ''spec.template.spec.containers.[0].image'', Before = ''app:1.2'', After = ''app:1.3''\<rparr>"

definition replicasDiff :: DiffResult where
  "replicasDiff = \<lparr>Path = ''spec.replicas'', Before = ''3'', After = ''5''\<rparr>"

definition exampleDiff :: "Manifest \<Rightarrow> Manifest \<Rightarrow> string \<Rightarrow> DiffResult list" where
  "exampleDiff old new pathPrefix =
     (if pathPrefix \<noteq> ''spec'' then []
      else if Body old = ''app:1.2 x3'' \<and> Body new = ''app:1.3 x3'' then [imageDiff]
      else if Body old = ''app:1.2 x3'' \<and> Body new = ''app:1.2 x5'' then [replicasDiff]
      else if Body old = ''app:1.2 x3'' \<and> Body new = ''app:1.3 x5'' then [replicasDiff, imageDiff]
      else [])"

text \<open>
  Stages of the example plans are a name with the clock reading; the progressive pipeline
  has a canary stage before the primary one.
\<close>

definition exampleExternals :: "(unit, string \<times> Time) Externals" where
  "exampleExternals =
     \<lparr>IsDeployment = (\<lambda>k. Kind k = ''Deployment''),
      Diff = exampleDiff,
      buildPipeline = (\<lambda>now. [(''K8S_SYNC'', now)]),
      buildProgressivePipeline = (\<lambda>p now. [(''K8S_CANARY_ROLLOUT'', now), (''K8S_PRIMARY_ROLLOUT'', now)])\<rparr>"

text \<open>
  A working tree that holds \<open>newBody\<close> at the new commit and the 1.2 image with 3 replicas
  at every earlier commit; no operation fails.
\<close>

definition exampleWorld :: "string \<Rightarrow> World" where
  "exampleWorld newBody =
     \<lparr>Now = 1600000000,
      Init = (\<lambda>pv. None),
      LoadManifests = (\<lambda>pv c.
        case c of
          None \<Rightarrow> ([serviceManifest, deploymentManifest newBody], None)
        | Some h \<Rightarrow> ([serviceManifest, deploymentManifest ''app:1.2 x3''], None)),
      Checkout = (\<lambda>h. None)\<rparr>"

definition exampleInput :: "unit KubernetesDeploymentSpec option \<Rightarrow> string \<Rightarrow> string \<Rightarrow> unit Input" where
  "exampleInput cfg h message =
     \<lparr>Deployment =
        \<lparr>DeploymentId = ''d-1'', ApplicationId = ''a-1'',
         Trigger = \<lparr>Commit = \<lparr>Hash = ''0f0f0f'', Message = message, Author = ''dev''\<rparr>,
                    Commander = []\<rparr>\<rparr>,
      MostRecentSuccessfulCommitHash = h,
      KubernetesDeploymentSpec = cfg,
      RepoDir = ''/repo'', AppDir = ''/repo/app''\<rparr>"

definition exampleCfg :: "unit KubernetesDeploymentSpec" where
  "exampleCfg = \<lparr>k8sInput = ''manifests'', k8sPipeline = None\<rparr>"

text \<open>
  The manifest sets of a run: what the loading steps of \<open>Plan\<close> yield for an input, in
  the order \<open>Plan\<close> takes them (initialise the provider, load the new manifests, check out
  the most recent successful commit, load the old manifests). Either the new and the old
  manifests, or the error of the first step that fails with the operations performed up
  to it.
\<close>

definition manifestSets :: "World \<Rightarrow> 'o Input \<Rightarrow> 'o KubernetesDeploymentSpec \<Rightarrow>
    (error \<times> operation list) + (Manifest list \<times> Manifest list)" where
  "manifestSets W inp cfg =
     (let pv = NewProvider (RepoDir inp) (AppDir inp) (k8sInput cfg);
          h = MostRecentSuccessfulCommitHash inp
      in case Init W pv of
           Some err \<Rightarrow> Inl (err, [OpInit])
         | None \<Rightarrow>
            (case LoadManifests W pv None of
               (newManifests, Some err) \<Rightarrow>
                 Inl (''failed to load new manifests: '' @ err, [OpInit, OpLoadManifests None])
             | (newManifests, None) \<Rightarrow>
                (case Checkout W h of
                   Some err \<Rightarrow>
                     Inl (''failed to checkout to commit '' @ h @ '': '' @ err,
                          [OpInit, OpLoadManifests None, OpCheckout h])
                 | None \<Rightarrow>
                    (case LoadManifests W pv (Some h) of
                       (oldManifests, Some err) \<Rightarrow>
                         Inl (''failed to load previously deployed manifests: '' @ err,
                              [OpInit, OpLoadManifests None, OpCheckout h, OpLoadManifests (Some h)])
                     | (oldManifests, None) \<Rightarrow> Inr (newManifests, oldManifests)))))"

section \<open>ECS executor (pkg/app/piped/executor/ecs/deploy.go)\<close>

text \<open>
  Modelled from the spec: the declaration of \<open>model.StageStatus\<close> is not among the source
  files. A stage's status is one of NOT_STARTED, RUNNING, SUCCESS, FAILURE, CANCELLED and
  SKIPPED; the executor names \<open>STAGE_SUCCESS\<close> and \<open>STAGE_FAILURE\<close>.
\<close>

datatype StageStatus =
    STAGE_NOT_STARTED_YET
  | STAGE_RUNNING
  | STAGE_SUCCESS
  | STAGE_FAILURE
  | STAGE_CANCELLED
  | STAGE_SKIPPED

text \<open>
  The fields of \<open>executor.Input\<close> and of the deploy source that \<open>Execute\<close> and
  \<open>ensureSync\<close> read. In the stage record of a deployment the name is a string.
\<close>

record ExecutorStage =
  StageName :: string
  Status :: StageStatus

record ExecutorInput =
  Stage :: ExecutorStage
  Application :: string

record ECSDeploymentInput =
  TaskDefinitionFile :: string
  ServiceDefinitionFile :: string

record DeploySource =
  ECSDeploymentSpec :: "ECSDeploymentInput option"
  sourceDir :: string

text \<open>
  What a run does besides returning a status: the lines it writes with
  \<open>LogPersister.Errorf\<close>, and the calls it makes to the deploy source provider and to the
  functions of the package that reach the deploy source files and the cloud provider.
\<close>

datatype effect =
    Errorf string
  | GetReadOnlyCalled
  | FindCloudProviderCalled
  | LoadTaskDefinitionCalled string
  | LoadServiceDefinitionCalled string
  | SyncCalled string

text \<open>
  Parameters: the constant \<open>model.StageECSSync\<close>; the outcome of
  \<open>TargetDSP.GetReadOnly\<close>; the functions \<open>findCloudProvider\<close>, \<open>loadTaskDefinition\<close>,
  \<open>loadServiceDefinition\<close> and \<open>sync\<close> of the package, which are in another file; and
  \<open>executor.DetermineStageStatus\<close>. \<open>'sig\<close> is the type of \<open>sig.Signal()\<close>.
\<close>

record 'sig ECSExternals =
  StageECSSync :: string
  GetReadOnly :: "error + DeploySource"
  findCloudProvider :: "ExecutorInput \<Rightarrow> (string \<times> string) option"
  loadTaskDefinition :: "ExecutorInput \<Rightarrow> string \<Rightarrow> DeploySource \<Rightarrow> bytes option"
  loadServiceDefinition :: "ExecutorInput \<Rightarrow> string \<Rightarrow> DeploySource \<Rightarrow> bytes option"
  sync :: "ExecutorInput \<Rightarrow> string \<Rightarrow> string \<Rightarrow> bytes \<Rightarrow> bytes \<Rightarrow> bool"
  DetermineStageStatus :: "'sig \<Rightarrow> StageStatus \<Rightarrow> StageStatus \<Rightarrow> StageStatus"

definition ensureSync :: "'sig ECSExternals \<Rightarrow> ExecutorInput \<Rightarrow> ECSDeploymentInput \<Rightarrow> DeploySource
    \<Rightarrow> string \<Rightarrow> string \<Rightarrow> StageStatus \<times> effect list" where
  "ensureSync X e deployCfg deploySource cloudProviderName cloudProviderCfg =
     (case loadTaskDefinition X e (TaskDefinitionFile deployCfg) deploySource of
        None \<Rightarrow> (STAGE_FAILURE, [LoadTaskDefinitionCalled (TaskDefinitionFile deployCfg)])
      | Some taskDefinition \<Rightarrow>
          (case loadServiceDefinition X e (ServiceDefinitionFile deployCfg) deploySource of
             None \<Rightarrow>
               (STAGE_FAILURE,
                [LoadTaskDefinitionCalled (TaskDefinitionFile deployCfg),
                 LoadServiceDefinitionCalled (ServiceDefinitionFile deployCfg)])
           | Some servicedefinition \<Rightarrow>
               (if \<not> sync X e cloudProviderName cloudProviderCfg taskDefinition servicedefinition
                then STAGE_FAILURE else STAGE_SUCCESS,
                [LoadTaskDefinitionCalled (TaskDefinitionFile deployCfg),
                 LoadServiceDefinitionCalled (ServiceDefinitionFile deployCfg),
                 SyncCalled cloudProviderName])))"

definition Execute :: "'sig ECSExternals \<Rightarrow> ExecutorInput \<Rightarrow> 'sig \<Rightarrow> StageStatus \<times> effect list" where
  "Execute X e signal =
     (case GetReadOnly X of
        Inl err \<Rightarrow>
          (STAGE_FAILURE,
           [GetReadOnlyCalled,
            Errorf (''Failed to prepare target deploy source data ('' @ err @ '')'')])
      | Inr ds \<Rightarrow>
          (case ECSDeploymentSpec ds of
             None \<Rightarrow>
               (STAGE_FAILURE,
                [GetReadOnlyCalled,
                 Errorf ''Malformed deployment configuration: missing ECSDeploymentSpec''])
           | Some deployCfg \<Rightarrow>
               (case findCloudProvider X e of
                  None \<Rightarrow> (STAGE_FAILURE, [GetReadOnlyCalled, FindCloudProviderCalled])
                | Some (cloudProviderName, cloudProviderCfg) \<Rightarrow>
                    (let originalStatus = Status (Stage e)
                     in if StageName (Stage e) = StageECSSync X then
                          (let (status, effects) =
                                 ensureSync X e deployCfg ds cloudProviderName cloudProviderCfg
                           in (DetermineStageStatus X signal originalStatus status,
                               [GetReadOnlyCalled, FindCloudProviderCalled] @ effects))
                        else
                          (STAGE_FAILURE,
                           [GetReadOnlyCalled, FindCloudProviderCalled,
                            Errorf (''Unsupported stage '' @ StageName (Stage e)
                                      @ '' for ECS application'')])))))"

text \<open>Whether a run reached the files of the deploy source or the cloud provider.\<close>

fun reachesCloud :: "effect \<Rightarrow> bool" where
  "reachesCloud (LoadTaskDefinitionCalled f) = True"
| "reachesCloud (LoadServiceDefinitionCalled f) = True"
| "reachesCloud (SyncCalled p) = True"
| "reachesCloud x = False"

text \<open>
  An executor environment in which the deploy source, its ECS spec and the cloud provider
  are found and syncing succeeds, and one in which the deploy source cannot be prepared.
  The signal is a string.
\<close>

definition exampleECS :: "string ECSExternals" where
  "exampleECS =
     \<lparr>StageECSSync = ''ECS_SYNC'',
      GetReadOnly =
        Inr \<lparr>ECSDeploymentSpec =
               Some \<lparr>TaskDefinitionFile = ''taskdef.yaml'', ServiceDefinitionFile = ''servicedef.yaml''\<rparr>,
             sourceDir = ''/tmp/deploysource''\<rparr>,
      findCloudProvider = (\<lambda>e. Some (''ecs-default'', ''region: us-east-1'')),
      loadTaskDefinition = (\<lambda>e f ds. Some ''family: app''),
      loadServiceDefinition = (\<lambda>e f ds. Some ''serviceName: app''),
      sync = (\<lambda>e n c t s. True),
      DetermineStageStatus = (\<lambda>signal original status. status)\<rparr>"

definition exampleECSInput :: "string \<Rightarrow> ExecutorInput" where
  "exampleECSInput name =
     \<lparr>Stage = \<lparr>StageName = name, Status = STAGE_RUNNING\<rparr>, Application = ''a-1''\<rparr>"

section \<open>Command line (pkg/app/piped/cmd/piped/piped.go and the ops command)\<close>

text \<open>
  A cobra command as far as the two constructors build it: its name, its flags in the
  order they are defined, each with the default it was defined with, and the names marked
  required with \<open>MarkFlagRequired\<close> (which leaves the command as it is, and returns an
  error the constructors ignore, when no flag has that name).
\<close>

datatype FlagValue =
    IntValue int
  | StringValue string
  | BoolValue bool
  | DurationValue Duration

record Flag =
  FlagName :: string
  DefValue :: FlagValue
  Usage :: string

record Command =
  Use :: string
  Short :: string
  Flags :: "Flag list"
  Required :: "string list"

definition Var :: "string \<Rightarrow> FlagValue \<Rightarrow> string \<Rightarrow> Command \<Rightarrow> Command" where
  "Var name val usage cmd =
     cmd\<lparr>Flags := Flags cmd @ [\<lparr>FlagName = name, DefValue = val, Usage = usage\<rparr>]\<rparr>"

definition MarkFlagRequired :: "string \<Rightarrow> Command \<Rightarrow> Command" where
  "MarkFlagRequired name cmd =
     (if name \<in> set (map FlagName (Flags cmd)) then cmd\<lparr>Required := Required cmd @ [name]\<rparr>
      else cmd)"

definition Lookup :: "Command \<Rightarrow> string \<Rightarrow> Flag option" where
  "Lookup cmd name = find (\<lambda>f. FlagName f = name) (Flags cmd)"

text \<open>
  \<open>os.UserHomeDir\<close> and \<open>path.Join\<close> belong to the standard library and are parameters.
  \<open>NewCommand\<close> panics when the home directory cannot be detected.
\<close>

record OS =
  UserHomeDir :: "error + string"
  pathJoin :: "string list \<Rightarrow> string"

definition NewCommand :: "OS \<Rightarrow> string + Command" where
  "NewCommand os =
     (case UserHomeDir os of
        Inl err \<Rightarrow> Inl (''failed to detect the current user's home directory: '' @ err)
      | Inr home \<Rightarrow>
          (let configFile = [];
               insecure = False;
               certFile = [];
               adminPort = 9085;
               toolsDir = pathJoin os [home, ''.piped'', ''tools''];
               enableDefaultKubernetesCloudProvider = False;
               useFakeAPIClient = False;
               gracePeriod = 30 * Second;
               addLoginUserToPasswd = False;
               cmd = \<lparr>Use = ''piped'', Short = ''Start running piped.'', Flags = [], Required = []\<rparr>
           in Inr
             (MarkFlagRequired ''config-file''
               (Var ''grace-period'' (DurationValue gracePeriod) ''How long to wait for graceful shutdown.''
               (Var ''add-login-user-to-passwd'' (BoolValue addLoginUserToPasswd)
                  ''Whether to add login user to /etc/passwd''
               (Var ''enable-default-kubernetes-cloud-provider'' (BoolValue enableDefaultKubernetesCloudProvider)
                  ''Whether the default kubernetes provider is enabled or not.''
               (Var ''use-fake-api-client'' (BoolValue useFakeAPIClient)
                  ''Whether the fake api client should be used instead of the real one or not.''
               (Var ''tools-dir'' (StringValue toolsDir)
                  ''The path to directory where to install needed tools such as kubectl, helm, kustomize.''
               (Var ''admin-port'' (IntValue adminPort)
                  ''The port number used to run a HTTP server for admin tasks such as metrics, healthz.''
               (Var ''cert-file'' (StringValue certFile) ''The path to the TLS certificate file.''
               (Var ''insecure'' (BoolValue insecure)
                  ''Whether disabling transport security while connecting to control-plane.''
               (Var ''config-file'' (StringValue configFile) ''The path to the configuration file.''
                  cmd))))))))))))"

definition NewOpsCommand :: Command where
  "NewOpsCommand =
     (let httpPort = 9082;
          adminPort = 9085;
          gracePeriod = 15 * Second;
          enableInsightCollector = False;
          configFile = [];
          gcloudPath = [];
          cmd = \<lparr>Use = ''ops'', Short = ''Start running ops server.'', Flags = [], Required = []\<rparr>
      in Var ''gcloud-path'' (StringValue gcloudPath) ''The path to the gcloud command executable.''
        (Var ''config-file'' (StringValue configFile) ''The path to the configuration file.''
        (Var ''enableInsightCollector-insight-collector'' (BoolValue enableInsightCollector)
           ''Enable insight collector.''
        (Var ''grace-period'' (DurationValue gracePeriod) ''How long to wait for graceful shutdown.''
        (Var ''admin-port'' (IntValue adminPort)
           ''The port number used to run a HTTP server for admin tasks such as metrics, healthz.''
        (Var ''http-port'' (IntValue httpPort) ''The port number used to run http server.''
           cmd))))))"

definition exampleOS :: OS where
  "exampleOS = \<lparr>UserHomeDir = Inr ''/home/piped'', pathJoin = (\<lambda>parts. Join parts ''/'')\<rparr>"

section \<open>Properties\<close>

text \<open>
  C10. For a non-negative index, \<open>GetStage\<close> never panics; it returns the indexed stage
  with \<open>true\<close> exactly when the pipeline is present and the index is below the number of
  its stages, and the zero-valued stage with \<open>false\<close> otherwise.
\<close>

theorem GetStage_nonneg_index:
  assumes "0 \<le> sint index"
  shows "GetStage s index =
           (case Pipeline s of
              None \<Rightarrow> Inr (PipelineStage_zero, False)
            | Some p \<Rightarrow>
                if nat (sint index) < length (Stages p)
                then Inr (Stages p ! nat (sint index), True)
                else Inr (PipelineStage_zero, False))
         \<and> ((\<exists>st. GetStage s index = Inr (st, True)) \<longleftrightarrow>
              (\<exists>p. Pipeline s = Some p \<and> nat (sint index) < length (Stages p)))
         \<and> (\<forall>e. GetStage s index \<noteq> Inl e)"
  using assms by (auto simp: GetStage_def split: option.splits)

theorem GetStage_nonneg_index_witness:
  "0 \<le> sint (1 :: 32 word)
   \<and> GetStage \<lparr>CommitMatcher = \<lparr>matcherQuickSync = [], matcherPipeline = []\<rparr>,
        Pipeline = Some \<lparr>Stages = [PipelineStage_zero :: unit PipelineStage,
                                    PipelineStage_zero\<lparr>Id := ''second''\<rparr>]\<rparr>,
        SealedSecrets = [], TriggerPaths = [], specTimeout = 0\<rparr> 1
     = Inr (PipelineStage_zero\<lparr>Id := ''second''\<rparr>, True)
   \<and> GetStage \<lparr>CommitMatcher = \<lparr>matcherQuickSync = [], matcherPipeline = []\<rparr>,
        Pipeline = Some \<lparr>Stages = [PipelineStage_zero :: unit PipelineStage]\<rparr>,
        SealedSecrets = [], TriggerPaths = [], specTimeout = 0\<rparr> 1
     = Inr (PipelineStage_zero, False)"
proof -
  have h: "0 \<le> sint (1 :: 32 word)" by simp
  show ?thesis
    using h
      GetStage_nonneg_index [OF h, of "\<lparr>CommitMatcher = \<lparr>matcherQuickSync = [], matcherPipeline = []\<rparr>,
        Pipeline = Some \<lparr>Stages = [PipelineStage_zero :: unit PipelineStage,
                                    PipelineStage_zero\<lparr>Id := ''second''\<rparr>]\<rparr>,
        SealedSecrets = [], TriggerPaths = [], specTimeout = 0\<rparr>"]
      GetStage_nonneg_index [OF h, of "\<lparr>CommitMatcher = \<lparr>matcherQuickSync = [], matcherPipeline = []\<rparr>,
        Pipeline = Some \<lparr>Stages = [PipelineStage_zero :: unit PipelineStage]\<rparr>,
        SealedSecrets = [], TriggerPaths = [], specTimeout = 0\<rparr>"]
    by simp
qed

subsection \<open>Decoding a pipeline stage\<close>

lemma UnmarshalJSON_error_iff:
  assumes "unmarshalGeneric J data = (gs, e)"
  shows "snd (UnmarshalJSON J s data) \<noteq> None \<longleftrightarrow>
     (e \<noteq> None \<or> \<not> supportedStage (gsName gs) \<or> withError J (gsName gs) (With gs) \<noteq> None)"
  using assms
  apply (cases e)
   apply (cases "gsName gs")
  apply (simp_all add: UnmarshalJSON_def supportedStage_def withError_def decodeWith_def Let_def split: prod.splits)
  done

lemma UnmarshalJSON_envelope_error:
  assumes "unmarshalGeneric J data = (gs, Some err)"
  shows "UnmarshalJSON J s data = (s, Some err)"
  using assms by (simp add: UnmarshalJSON_def)

lemma UnmarshalJSON_envelope_fields:
  assumes "unmarshalGeneric J data = (gs, None)"
  shows "Id (fst (UnmarshalJSON J s data)) = gsId gs
       \<and> Name (fst (UnmarshalJSON J s data)) = gsName gs
       \<and> Desc (fst (UnmarshalJSON J s data)) = gsDesc gs
       \<and> Timeout (fst (UnmarshalJSON J s data)) = gsTimeout gs"
  using assms
  apply (cases "gsName gs")
  apply (simp_all add: UnmarshalJSON_def Let_def split: prod.splits)
  done

lemma UnmarshalJSON_pointers:
  assumes "unmarshalGeneric J data = (gs, None)"
  shows "optionsSet (fst (UnmarshalJSON J s data)) n
         \<longleftrightarrow> optionsSet s n \<or> (n = gsName gs \<and> supportedStage n)"
  using assms
  apply (cases "gsName gs"; cases n)
  apply (simp_all add: UnmarshalJSON_def Let_def optionsSet_def supportedStage_def split: prod.splits)
  done

lemma UnmarshalJSON_unsupported:
  assumes "unmarshalGeneric J data = (gs, None)" "gsName gs = StageOther n"
  shows "snd (UnmarshalJSON J s data) = Some (''unsupported stage name: '' @ n)"
  using assms by (simp add: UnmarshalJSON_def Let_def)

lemma UnmarshalJSON_other_payload:
  assumes "unmarshalGeneric J data = (gs, None)" "supportedStage (gsName gs)" "\<not> ownOptionsStage (gsName gs)"
  shows "otherOptions (fst (UnmarshalJSON J s data)) (gsName gs)
         = Some (if With gs = [] then emptyOptions J (gsName gs)
                 else fst (unmarshalOptions J (gsName gs) (With gs)))"
  using assms
  apply (cases "gsName gs")
  apply (simp_all add: UnmarshalJSON_def Let_def otherOptions_def supportedStage_def ownOptionsStage_def decodeWith_def split: prod.splits)
  done

lemma UnmarshalJSON_wait_payload:
  assumes "unmarshalGeneric J data = (gs, None)" "gsName gs = StageWait"
  shows "WaitStageOptions (fst (UnmarshalJSON J s data))
         = Some (if With gs = [] then WaitStageOptions_zero else fst (unmarshalWait J (With gs)))"
  using assms
  by (simp add: UnmarshalJSON_def Let_def decodeWith_def split: prod.splits)

lemma defaultMetricTimeouts_length: "length (defaultMetricTimeouts ms) = length ms"
  by (induction ms) simp_all

lemma defaultMetricTimeouts_nth:
  "i < length ms \<Longrightarrow>
   defaultMetricTimeouts ms ! i =
     (if metricTimeout (ms ! i) \<le> 0 then (ms ! i)\<lparr>metricTimeout := defaultAnalysisQueryTimeout\<rparr>
      else ms ! i)"
proof (induction ms arbitrary: i)
  case Nil
  then show ?case by simp
next
  case (Cons m ms)
  then show ?case by (cases i) simp_all
qed

lemma UnmarshalJSON_approval:
  assumes "unmarshalGeneric J data = (gs, None)" "gsName gs = StageWaitApproval"
    and "d = (if With gs = [] then WaitApprovalStageOptions_zero else fst (unmarshalWaitApproval J (With gs)))"
  shows "WaitApprovalStageOptions (fst (UnmarshalJSON J s data)) =
           Some (if approvalTimeout d \<le> 0 then d\<lparr>approvalTimeout := 6 * Hour\<rparr> else d)"
  using assms
  by (simp add: UnmarshalJSON_def Let_def decodeWith_def defaultWaitApprovalTimeout_def split: prod.splits)

lemma UnmarshalJSON_analysis:
  assumes "unmarshalGeneric J data = (gs, None)" "gsName gs = StageAnalysis"
    and "d = (if With gs = [] then AnalysisStageOptions_zero else fst (unmarshalAnalysis J (With gs)))"
  shows "AnalysisStageOptions (fst (UnmarshalJSON J s data)) =
           Some (d\<lparr>Metrics := defaultMetricTimeouts (Metrics d)\<rparr>)"
  using assms
  by (simp add: UnmarshalJSON_def Let_def decodeWith_def split: prod.splits)

lemma Validate_timeout:
  "specTimeout (fst (Validate s)) = (if specTimeout s = 0 then 6 * Hour else specTimeout s)"
  by (simp add: Validate_def Let_def)

lemma defaultMetricTimeouts_map:
  "defaultMetricTimeouts ms =
     map (\<lambda>m. if metricTimeout m \<le> 0 then m\<lparr>metricTimeout := defaultAnalysisQueryTimeout\<rparr> else m) ms"
  by (induction ms) simp_all

lemma UnmarshalJSON_others_kept:
  assumes "unmarshalGeneric J data = (gs, None)" and "n \<noteq> gsName gs"
  shows "stageOptions (fst (UnmarshalJSON J s data)) n = stageOptions s n"
  using assms
  apply (cases "gsName gs"; cases n)
  apply (simp_all add: UnmarshalJSON_def Let_def stageOptions_def otherOptions_def split: prod.splits)
  done

lemma UnmarshalJSON_unsupported_kept:
  assumes "unmarshalGeneric J data = (gs, None)" and "\<not> supportedStage (gsName gs)"
  shows "stageOptions (fst (UnmarshalJSON J s data)) n = stageOptions s n"
  using assms
  apply (cases "gsName gs"; cases n)
  apply (simp_all add: UnmarshalJSON_def Let_def stageOptions_def otherOptions_def supportedStage_def)
  done

text \<open>
  C6. \<open>UnmarshalJSON\<close> works in two passes. The first decodes the envelope; when that
  fails the error is returned and the stage is left as it was. Otherwise id, name, desc and
  timeout are copied; the options pointer that belongs to the stage name is set to the
  options decoded from the \<open>with\<close> payload (the zero options when there is no payload,
  and with the default timeouts filled in for WaitApproval and Analysis), and every other
  options pointer keeps the value it had; for a name without a case in the switch no
  pointer changes. An error is returned if and only if the envelope fails to decode, the
  name has no case in the switch (the error then reads \<open>unsupported stage name: \<close> and the
  name), or the selected options fail to decode.
\<close>

theorem UnmarshalJSON_two_pass:
  assumes "unmarshalGeneric J data = (gs, e)"
  shows "(snd (UnmarshalJSON J s data) \<noteq> None \<longleftrightarrow>
            (e \<noteq> None \<or> \<not> supportedStage (gsName gs)
             \<or> withError J (gsName gs) (With gs) \<noteq> None))
       \<and> (e \<noteq> None \<longrightarrow> UnmarshalJSON J s data = (s, e))
       \<and> (e = None \<longrightarrow>
            Id (fst (UnmarshalJSON J s data)) = gsId gs
          \<and> Name (fst (UnmarshalJSON J s data)) = gsName gs
          \<and> Desc (fst (UnmarshalJSON J s data)) = gsDesc gs
          \<and> Timeout (fst (UnmarshalJSON J s data)) = gsTimeout gs
          \<and> (\<forall>n. optionsSet (fst (UnmarshalJSON J s data)) n
                    \<longleftrightarrow> optionsSet s n \<or> (n = gsName gs \<and> supportedStage n))
          \<and> (\<forall>n. n \<noteq> gsName gs \<or> \<not> supportedStage (gsName gs) \<longrightarrow>
                stageOptions (fst (UnmarshalJSON J s data)) n = stageOptions s n)
          \<and> (supportedStage (gsName gs) \<longrightarrow>
                snd (UnmarshalJSON J s data) = withError J (gsName gs) (With gs))
          \<and> (\<forall>n. gsName gs = StageOther n \<longrightarrow>
                snd (UnmarshalJSON J s data) = Some (''unsupported stage name: '' @ n))
          \<and> (gsName gs = StageWait \<longrightarrow>
                WaitStageOptions (fst (UnmarshalJSON J s data))
                  = Some (if With gs = [] then WaitStageOptions_zero
                          else fst (unmarshalWait J (With gs))))
          \<and> (gsName gs = StageWaitApproval \<longrightarrow>
                WaitApprovalStageOptions (fst (UnmarshalJSON J s data))
                  = Some (let d = (if With gs = [] then WaitApprovalStageOptions_zero
                                   else fst (unmarshalWaitApproval J (With gs)))
                          in if approvalTimeout d \<le> 0
                             then d\<lparr>approvalTimeout := defaultWaitApprovalTimeout\<rparr> else d))
          \<and> (gsName gs = StageAnalysis \<longrightarrow>
                AnalysisStageOptions (fst (UnmarshalJSON J s data))
                  = Some (let d = (if With gs = [] then AnalysisStageOptions_zero
                                   else fst (unmarshalAnalysis J (With gs)))
                          in d\<lparr>Metrics :=
                                 map (\<lambda>m. if metricTimeout m \<le> 0
                                           then m\<lparr>metricTimeout := defaultAnalysisQueryTimeout\<rparr>
                                           else m) (Metrics d)\<rparr>))
          \<and> (supportedStage (gsName gs) \<and> \<not> ownOptionsStage (gsName gs) \<longrightarrow>
                otherOptions (fst (UnmarshalJSON J s data)) (gsName gs)
                  = Some (if With gs = [] then emptyOptions J (gsName gs)
                          else fst (unmarshalOptions J (gsName gs) (With gs)))))"
proof (cases e)
  case None
  have g: "unmarshalGeneric J data = (gs, None)"
    using assms None by simp
  have err: "supportedStage (gsName gs) \<Longrightarrow>
      snd (UnmarshalJSON J s data) = withError J (gsName gs) (With gs)"
    using g by (cases "gsName gs")
      (simp_all add: UnmarshalJSON_def supportedStage_def withError_def decodeWith_def Let_def
        split: prod.splits)
  have kept: "stageOptions (fst (UnmarshalJSON J s data)) n = stageOptions s n"
    if "n \<noteq> gsName gs \<or> \<not> supportedStage (gsName gs)" for n
    using that UnmarshalJSON_others_kept [OF g, of n s] UnmarshalJSON_unsupported_kept [OF g, of s n]
    by blast
  have approval: "gsName gs = StageWaitApproval \<Longrightarrow>
      WaitApprovalStageOptions (fst (UnmarshalJSON J s data))
        = Some (let d = (if With gs = [] then WaitApprovalStageOptions_zero
                         else fst (unmarshalWaitApproval J (With gs)))
                in if approvalTimeout d \<le> 0
                   then d\<lparr>approvalTimeout := defaultWaitApprovalTimeout\<rparr> else d)"
    using UnmarshalJSON_approval [OF g _ refl, of s]
    by (simp add: Let_def defaultWaitApprovalTimeout_def)
  have analysis: "gsName gs = StageAnalysis \<Longrightarrow>
      AnalysisStageOptions (fst (UnmarshalJSON J s data))
        = Some (let d = (if With gs = [] then AnalysisStageOptions_zero
                         else fst (unmarshalAnalysis J (With gs)))
                in d\<lparr>Metrics :=
                       map (\<lambda>m. if metricTimeout m \<le> 0
                                 then m\<lparr>metricTimeout := defaultAnalysisQueryTimeout\<rparr>
                                 else m) (Metrics d)\<rparr>)"
    using UnmarshalJSON_analysis [OF g _ refl, of s]
    by (simp add: Let_def defaultMetricTimeouts_map)
  show ?thesis
    apply (intro conjI)
    subgoal using UnmarshalJSON_error_iff [OF assms, of s] by simp
    subgoal using None by simp
    subgoal
      apply (intro impI conjI allI)
      subgoal using UnmarshalJSON_envelope_fields [OF g, of s] by simp
      subgoal using UnmarshalJSON_envelope_fields [OF g, of s] by simp
      subgoal using UnmarshalJSON_envelope_fields [OF g, of s] by simp
      subgoal using UnmarshalJSON_envelope_fields [OF g, of s] by simp
      subgoal for n using UnmarshalJSON_pointers [OF g, of s n] by simp
      subgoal for n using kept [of n] by simp
      subgoal using err by simp
      subgoal for n using UnmarshalJSON_unsupported [OF g, of n s] by simp
      subgoal using UnmarshalJSON_wait_payload [OF g, of s] by simp
      subgoal using approval by simp
      subgoal using analysis by simp
      subgoal using UnmarshalJSON_other_payload [OF g, of s] by simp
      done
    done
next
  case (Some err)
  then show ?thesis
    using UnmarshalJSON_envelope_error [of J data gs err s] assms by simp
qed

theorem UnmarshalJSON_two_pass_witness:
  "unmarshalGeneric exampleJson ''canary''
     = (\<lparr>gsId = ''s3'', gsName = StageK8sCanaryRollout, gsDesc = [], gsTimeout = 0, With = ''bad''\<rparr>, None)
   \<and> snd (UnmarshalJSON exampleJson PipelineStage_zero ''canary'') = Some ''cannot unmarshal''
   \<and> optionsSet (fst (UnmarshalJSON exampleJson PipelineStage_zero ''canary'')) StageK8sCanaryRollout
   \<and> \<not> optionsSet (fst (UnmarshalJSON exampleJson PipelineStage_zero ''canary'')) StageK8sCanaryClean
   \<and> Id (fst (UnmarshalJSON exampleJson PipelineStage_zero ''canary'')) = ''s3''
   \<and> unmarshalGeneric exampleJson ''analysis''
     = (\<lparr>gsId = ''s2'', gsName = StageAnalysis, gsDesc = [], gsTimeout = 0, With = ''metrics''\<rparr>, None)
   \<and> WaitStageOptions
       (fst (UnmarshalJSON exampleJson
              (PipelineStage_zero\<lparr>WaitStageOptions := Some \<lparr>waitDuration = 5000000000\<rparr>\<rparr>) ''analysis''))
     = Some \<lparr>waitDuration = 5000000000\<rparr>
   \<and> AnalysisStageOptions
       (fst (UnmarshalJSON exampleJson
              (PipelineStage_zero\<lparr>WaitStageOptions := Some \<lparr>waitDuration = 5000000000\<rparr>\<rparr>) ''analysis''))
     = Some \<lparr>analysisDuration = 60000000000, RestartThreshold = 0,
             Metrics =
               [\<lparr>metricTimeout = 30000000000, metricFields = ''m0'',
                 metricTemplate = \<lparr>templateName = [], templateArgs = []\<rparr>\<rparr>,
                \<lparr>metricTimeout = 5000000000, metricFields = ''m1'',
                 metricTemplate = \<lparr>templateName = [], templateArgs = []\<rparr>\<rparr>],
             Logs = [], Https = [], Dynamic = []\<rparr>"
proof -
  let ?gs = "\<lparr>gsId = ''s3'', gsName = StageK8sCanaryRollout, gsDesc = [], gsTimeout = 0, With = ''bad''\<rparr>"
  let ?ga = "\<lparr>gsId = ''s2'', gsName = StageAnalysis, gsDesc = [], gsTimeout = 0, With = ''metrics''\<rparr>"
  let ?s0 = "(PipelineStage_zero :: unit PipelineStage)\<lparr>WaitStageOptions := Some \<lparr>waitDuration = 5000000000\<rparr>\<rparr>"
  have h: "unmarshalGeneric exampleJson ''canary'' = (?gs, None)"
    by (simp add: exampleJson_def)
  have ha: "unmarshalGeneric exampleJson ''analysis'' = (?ga, None)"
    by (simp add: exampleJson_def)
  have sup: "supportedStage (gsName ?gs)"
    by (simp add: supportedStage_def)
  have w: "withError exampleJson (gsName ?gs) (With ?gs) = Some ''cannot unmarshal''"
    by (simp add: withError_def exampleJson_def)
  have z: "\<not> optionsSet (PipelineStage_zero :: unit PipelineStage) n" for n
    by (cases n) (simp_all add: optionsSet_def PipelineStage_zero_def)
  note t = UnmarshalJSON_two_pass [OF h, of PipelineStage_zero]
  note ta = UnmarshalJSON_two_pass [OF ha, of ?s0]
  from t sup w have "snd (UnmarshalJSON exampleJson PipelineStage_zero ''canary'') = Some ''cannot unmarshal''"
    by simp
  moreover from t sup z have "optionsSet (fst (UnmarshalJSON exampleJson PipelineStage_zero ''canary'')) StageK8sCanaryRollout"
    by simp
  moreover from t z have "\<not> optionsSet (fst (UnmarshalJSON exampleJson PipelineStage_zero ''canary'')) StageK8sCanaryClean"
    by simp
  moreover from t have "Id (fst (UnmarshalJSON exampleJson PipelineStage_zero ''canary'')) = ''s3''"
    by simp
  moreover have "WaitStageOptions (fst (UnmarshalJSON exampleJson ?s0 ''analysis''))
      = Some \<lparr>waitDuration = 5000000000\<rparr>"
  proof -
    from ta have "stageOptions (fst (UnmarshalJSON exampleJson ?s0 ''analysis'')) StageWait
        = stageOptions ?s0 StageWait"
      by simp
    then show ?thesis
      by (simp add: stageOptions_def PipelineStage_zero_def)
  qed
  moreover have "AnalysisStageOptions (fst (UnmarshalJSON exampleJson ?s0 ''analysis''))
     = Some \<lparr>analysisDuration = 60000000000, RestartThreshold = 0,
             Metrics =
               [\<lparr>metricTimeout = 30000000000, metricFields = ''m0'',
                 metricTemplate = \<lparr>templateName = [], templateArgs = []\<rparr>\<rparr>,
                \<lparr>metricTimeout = 5000000000, metricFields = ''m1'',
                 metricTemplate = \<lparr>templateName = [], templateArgs = []\<rparr>\<rparr>],
             Logs = [], Https = [], Dynamic = []\<rparr>"
  proof -
    from ta have "AnalysisStageOptions (fst (UnmarshalJSON exampleJson ?s0 ''analysis''))
        = Some (let d = (if With ?ga = [] then AnalysisStageOptions_zero
                         else fst (unmarshalAnalysis exampleJson (With ?ga)))
                in d\<lparr>Metrics :=
                       map (\<lambda>m. if metricTimeout m \<le> 0
                                 then m\<lparr>metricTimeout := defaultAnalysisQueryTimeout\<rparr>
                                 else m) (Metrics d)\<rparr>)"
      by simp
    then show ?thesis
      by (simp add: exampleJson_def AnalysisStageOptions_zero_def defaultAnalysisQueryTimeout_def
          Second_def Let_def)
  qed
  ultimately show ?thesis using h ha by blast
qed

text \<open>
  C7. Default timeouts. The constants are 6 hours and 30 seconds in nanoseconds. After
  a successful first pass, a WaitApproval stage has the decoded timeout when that is
  positive and 6 hours otherwise (in particular when \<open>with\<close> is absent); every metric of an
  Analysis stage has its decoded query timeout when positive and 30 seconds otherwise; and
  \<open>Validate\<close> leaves a deployment timeout of 6 hours when it was zero and the configured
  value otherwise.
\<close>

theorem default_timeouts:
  "defaultWaitApprovalTimeout = 6 * 3600 * 1000000000
   \<and> defaultAnalysisQueryTimeout = 30 * 1000000000
   \<and> (unmarshalGeneric J data = (gs, None) \<and> gsName gs = StageWaitApproval \<longrightarrow>
        (\<exists>opts. WaitApprovalStageOptions (fst (UnmarshalJSON J s data)) = Some opts
           \<and> approvalTimeout opts =
               (let t = approvalTimeout
                          (fst (decodeWith (unmarshalWaitApproval J) WaitApprovalStageOptions_zero (With gs)))
                in if t \<le> 0 then defaultWaitApprovalTimeout else t)
           \<and> (With gs = [] \<longrightarrow> approvalTimeout opts = defaultWaitApprovalTimeout)))
   \<and> (unmarshalGeneric J data = (gs, None) \<and> gsName gs = StageAnalysis \<longrightarrow>
        (\<exists>opts. AnalysisStageOptions (fst (UnmarshalJSON J s data)) = Some opts
           \<and> (let ms = Metrics (fst (decodeWith (unmarshalAnalysis J) AnalysisStageOptions_zero (With gs)))
              in length (Metrics opts) = length ms
                 \<and> (\<forall>i < length ms.
                       metricTimeout (Metrics opts ! i) =
                         (if metricTimeout (ms ! i) \<le> 0 then defaultAnalysisQueryTimeout
                          else metricTimeout (ms ! i))))))
   \<and> specTimeout (fst (Validate spec)) = (if specTimeout spec = 0 then 6 * 3600 * 1000000000 else specTimeout spec)"
proof -
  have vals: "defaultWaitApprovalTimeout = 6 * 3600 * 1000000000"
    "defaultAnalysisQueryTimeout = 30 * 1000000000"
    by (simp_all add: defaultWaitApprovalTimeout_def defaultAnalysisQueryTimeout_def Hour_def Second_def)
  have approval: "\<exists>opts. WaitApprovalStageOptions (fst (UnmarshalJSON J s data)) = Some opts
           \<and> approvalTimeout opts =
               (let t = approvalTimeout
                          (fst (decodeWith (unmarshalWaitApproval J) WaitApprovalStageOptions_zero (With gs)))
                in if t \<le> 0 then defaultWaitApprovalTimeout else t)
           \<and> (With gs = [] \<longrightarrow> approvalTimeout opts = defaultWaitApprovalTimeout)"
    if g: "unmarshalGeneric J data = (gs, None)" and n: "gsName gs = StageWaitApproval"
    using UnmarshalJSON_approval [OF g n refl, of s]
    by (simp add: decodeWith_def Let_def defaultWaitApprovalTimeout_def WaitApprovalStageOptions_zero_def)
  have analysis: "\<exists>opts. AnalysisStageOptions (fst (UnmarshalJSON J s data)) = Some opts
           \<and> (let ms = Metrics (fst (decodeWith (unmarshalAnalysis J) AnalysisStageOptions_zero (With gs)))
              in length (Metrics opts) = length ms
                 \<and> (\<forall>i < length ms.
                       metricTimeout (Metrics opts ! i) =
                         (if metricTimeout (ms ! i) \<le> 0 then defaultAnalysisQueryTimeout
                          else metricTimeout (ms ! i))))"
    if g: "unmarshalGeneric J data = (gs, None)" and n: "gsName gs = StageAnalysis"
    using UnmarshalJSON_analysis [OF g n refl, of s]
    by (simp add: decodeWith_def Let_def defaultMetricTimeouts_length defaultMetricTimeouts_nth)
  have validate: "specTimeout (fst (Validate spec)) = (if specTimeout spec = 0 then 6 * 3600 * 1000000000 else specTimeout spec)"
    using Validate_timeout [of spec] by (simp add: Hour_def Second_def)
  show ?thesis
    using vals approval analysis validate by blast
qed

theorem default_timeouts_witness:
  "(\<exists>opts. WaitApprovalStageOptions (fst (UnmarshalJSON exampleJson PipelineStage_zero ''approval'')) = Some opts
      \<and> approvalTimeout opts = 21600000000000)
   \<and> (\<exists>opts. AnalysisStageOptions (fst (UnmarshalJSON exampleJson PipelineStage_zero ''analysis'')) = Some opts
      \<and> length (Metrics opts) = 2
      \<and> metricTimeout (Metrics opts ! 0) = 30000000000
      \<and> metricTimeout (Metrics opts ! 1) = 5000000000)
   \<and> specTimeout (fst (Validate exampleSpec)) = 21600000000000
   \<and> specTimeout (fst (Validate (exampleSpec\<lparr>specTimeout := 60000000000\<rparr>))) = 60000000000"
proof -
  let ?g1 = "\<lparr>gsId = ''s1'', gsName = StageWaitApproval, gsDesc = [], gsTimeout = 0, With = []\<rparr>"
  let ?g2 = "\<lparr>gsId = ''s2'', gsName = StageAnalysis, gsDesc = [], gsTimeout = 0, With = ''metrics''\<rparr>"
  have h1: "unmarshalGeneric exampleJson ''approval'' = (?g1, None)"
    by (simp add: exampleJson_def)
  have h2: "unmarshalGeneric exampleJson ''analysis'' = (?g2, None)"
    by (simp add: exampleJson_def)
  have ms: "Metrics (fst (decodeWith (unmarshalAnalysis exampleJson) AnalysisStageOptions_zero (With ?g2)))
      = [\<lparr>metricTimeout = 0, metricFields = ''m0'',
           metricTemplate = \<lparr>templateName = [], templateArgs = []\<rparr>\<rparr>,
         \<lparr>metricTimeout = 5000000000, metricFields = ''m1'',
           metricTemplate = \<lparr>templateName = [], templateArgs = []\<rparr>\<rparr>]"
    by (simp add: decodeWith_def exampleJson_def Second_def)
  note t1 = default_timeouts [where J = exampleJson and data = "''approval''" and gs = ?g1
      and s = PipelineStage_zero and spec = exampleSpec]
  note t2 = default_timeouts [where J = exampleJson and data = "''analysis''" and gs = ?g2
      and s = PipelineStage_zero and spec = "exampleSpec\<lparr>specTimeout := 60000000000\<rparr>"]
  from t1 h1 have a: "\<exists>opts. WaitApprovalStageOptions (fst (UnmarshalJSON exampleJson PipelineStage_zero ''approval'')) = Some opts
      \<and> approvalTimeout opts = 21600000000000"
    by auto
  from t2 h2 have "\<exists>opts. AnalysisStageOptions (fst (UnmarshalJSON exampleJson PipelineStage_zero ''analysis'')) = Some opts
           \<and> (let ms = Metrics (fst (decodeWith (unmarshalAnalysis exampleJson) AnalysisStageOptions_zero (With ?g2)))
              in length (Metrics opts) = length ms
                 \<and> (\<forall>i < length ms.
                       metricTimeout (Metrics opts ! i) =
                         (if metricTimeout (ms ! i) \<le> 0 then defaultAnalysisQueryTimeout
                          else metricTimeout (ms ! i))))"
    by simp
  then obtain opts where o: "AnalysisStageOptions (fst (UnmarshalJSON exampleJson PipelineStage_zero ''analysis'')) = Some opts"
    and l: "length (Metrics opts) = 2"
    and n: "\<forall>i < 2. metricTimeout (Metrics opts ! i) =
                         (if metricTimeout ([\<lparr>metricTimeout = 0, metricFields = ''m0'',
           metricTemplate = \<lparr>templateName = [], templateArgs = []\<rparr>\<rparr>,
         \<lparr>metricTimeout = 5000000000, metricFields = ''m1'',
           metricTemplate = \<lparr>templateName = [], templateArgs = []\<rparr>\<rparr>] ! i) \<le> 0 then defaultAnalysisQueryTimeout
                          else metricTimeout ([\<lparr>metricTimeout = 0, metricFields = ''m0'',
           metricTemplate = \<lparr>templateName = [], templateArgs = []\<rparr>\<rparr>,
         \<lparr>metricTimeout = 5000000000, metricFields = ''m1'',
           metricTemplate = \<lparr>templateName = [], templateArgs = []\<rparr>\<rparr>] ! i))"
    unfolding ms Let_def by auto
  from n have n0: "metricTimeout (Metrics opts ! 0) = 30000000000"
    using t2 by (simp add: defaultAnalysisQueryTimeout_def Second_def)
  from n have "metricTimeout (Metrics opts ! Suc 0) = 5000000000"
    by (simp del: One_nat_def)
  then have n1: "metricTimeout (Metrics opts ! 1) = 5000000000"
    by simp
  from o l n0 n1 have b: "\<exists>opts. AnalysisStageOptions (fst (UnmarshalJSON exampleJson PipelineStage_zero ''analysis'')) = Some opts
      \<and> length (Metrics opts) = 2
      \<and> metricTimeout (Metrics opts ! 0) = 30000000000
      \<and> metricTimeout (Metrics opts ! 1) = 5000000000"
    by blast
  from t1 have c: "specTimeout (fst (Validate exampleSpec)) = 21600000000000"
    by (simp add: exampleSpec_def)
  from t2 have d: "specTimeout (fst (Validate (exampleSpec\<lparr>specTimeout := 60000000000\<rparr>))) = 60000000000"
    by (simp add: exampleSpec_def)
  from a b c d show ?thesis by blast
qed

subsection \<open>Strings\<close>

lemma Contains_iff: "Contains s substr \<longleftrightarrow> sublist substr s"
  by (induction s) (auto simp: sublist_Cons_right)

lemma Contains_append: "Contains (p @ substr @ q) substr"
  by (simp add: Contains_iff)

lemma Split_not_Nil: "Split s sep \<noteq> []"
  by (induction s) (auto split: list.splits)



lemma parseContainerImage_12: "parseContainerImage ''app:1.2'' = (''app'', ''1.2'')"
  by (simp add: parseContainerImage_def Let_def)

lemma parseContainerImage_13: "parseContainerImage ''app:1.3'' = (''app'', ''1.3'')"
  by (simp add: parseContainerImage_def Let_def)

subsection \<open>The strategy decision\<close>





text \<open>
  C4. When both manifest sets contain a workload and the scoped diff of the workloads is
  the single record \<open>spec.replicas\<close>, \<open>decideStrategy\<close> chooses QuickSync (progressive is
  false) and the description is exactly \<open>Scale workload from BEFORE to AFTER.\<close>; for a
  change from 3 to 5 it is \<open>Scale workload from 3 to 5.\<close>
\<close>

theorem decideStrategy_scale_only:
  assumes "findWorkload E olds = Some oldWorkload"
    and "findWorkload E news = Some newWorkload"
    and "Diff E oldWorkload newWorkload ''spec'' = [d]"
    and "Path d = ''spec.replicas''"
  shows "decideStrategy E olds news
           = (False, ''Scale workload from '' @ Before d @ '' to '' @ After d @ ''.'')
       \<and> (Before d = ''3'' \<and> After d = ''5''
            \<longrightarrow> decideStrategy E olds news = (False, ''Scale workload from 3 to 5.''))"
  using assms
  by (simp add: decideStrategy_def FindByPrefix_def checkReplicasChange_def Find_def
      replicasQuery_def Let_def)

theorem decideStrategy_scale_only_witness:
  "findWorkload exampleExternals [serviceManifest, deploymentManifest ''app:1.2 x3'']
     = Some (deploymentManifest ''app:1.2 x3'')
   \<and> findWorkload exampleExternals [deploymentManifest ''app:1.2 x5'', serviceManifest]
     = Some (deploymentManifest ''app:1.2 x5'')
   \<and> Diff exampleExternals (deploymentManifest ''app:1.2 x3'') (deploymentManifest ''app:1.2 x5'') ''spec''
     = [replicasDiff]
   \<and> decideStrategy exampleExternals [serviceManifest, deploymentManifest ''app:1.2 x3'']
        [deploymentManifest ''app:1.2 x5'', serviceManifest]
     = (False, ''Scale workload from 3 to 5.'')"
proof -
  let ?olds = "[serviceManifest, deploymentManifest ''app:1.2 x3'']"
  let ?news = "[deploymentManifest ''app:1.2 x5'', serviceManifest]"
  have ow: "findWorkload exampleExternals ?olds = Some (deploymentManifest ''app:1.2 x3'')"
    by (simp add: exampleExternals_def serviceManifest_def deploymentManifest_def)
  have nw: "findWorkload exampleExternals ?news = Some (deploymentManifest ''app:1.2 x5'')"
    by (simp add: exampleExternals_def serviceManifest_def deploymentManifest_def)
  have df: "Diff exampleExternals (deploymentManifest ''app:1.2 x3'') (deploymentManifest ''app:1.2 x5'') ''spec''
     = [replicasDiff]"
    by (simp add: exampleExternals_def exampleDiff_def deploymentManifest_def)
  have p: "Path replicasDiff = ''spec.replicas''"
    by (simp add: replicasDiff_def)
  have "decideStrategy exampleExternals ?olds ?news = (False, ''Scale workload from 3 to 5.'')"
    using decideStrategy_scale_only [OF ow nw df p] by (simp add: replicasDiff_def)
  then show ?thesis
    using ow nw df by blast
qed

subsection \<open>Plan\<close>

lemma Plan_no_spec:
  assumes "KubernetesDeploymentSpec inp = None"
  shows "Plan E W inp =
           ((Output_zero, Some ''malfored deployment configuration: missing KubernetesDeploymentSpec''), [])"
  using assms by (simp add: Plan_def)

lemma Output_zero_no_description: "\<not> Contains (Description Output_zero) (c # cs)"
  by (simp add: Output_zero_def)

text \<open>
  C1. \<open>Plan\<close> first checks that the input has a KubernetesDeploymentSpec and returns an
  error with empty output when it has none, whatever the commit hash. For an input that
  has one and whose MostRecentSuccessfulCommitHash is empty, \<open>Plan\<close> returns the stages of
  \<open>buildPipeline\<close> at the clock's reading, a description that contains
  \<open>unable to find the most recent successful commit\<close>, no error, and performs no
  operation on the working tree (no manifest is loaded or compared): the result is the same
  in every working tree and with every diff function that agree on the QuickSync stages.
\<close>

theorem Plan_first_deployment:
  assumes "KubernetesDeploymentSpec inp = Some cfg"
    and "MostRecentSuccessfulCommitHash inp = []"
  shows "Plan E W inp =
           ((\<lparr>OutputStages = buildPipeline E (Now W),
              Description = ''Apply all manifests because it was unable to find the most recent successful commit.''\<rparr>,
             None), [])
       \<and> Contains (Description (fst (fst (Plan E W inp))))
            ''unable to find the most recent successful commit''
       \<and> snd (Plan E W inp) = []
       \<and> (\<forall>E' W'. buildPipeline E' (Now W') = buildPipeline E (Now W)
             \<longrightarrow> Plan E' W' inp = Plan E W inp)"
proof -
  have p: "Plan E W inp =
           ((\<lparr>OutputStages = buildPipeline E (Now W),
              Description = ''Apply all manifests because it was unable to find the most recent successful commit.''\<rparr>,
             None), [])"
    using assms by (simp add: Plan_def)
  have "Contains (''Apply all manifests because it was '' @
      ''unable to find the most recent successful commit'' @ ''.'')
      ''unable to find the most recent successful commit''"
    by (rule Contains_append)
  moreover have "Plan E' W' inp = Plan E W inp"
    if "buildPipeline E' (Now W') = buildPipeline E (Now W)" for E' :: "('a, 'b) Externals" and W'
    using assms that by (simp add: Plan_def)
  ultimately show ?thesis
    using p by simp
qed

theorem Plan_first_deployment_witness:
  "KubernetesDeploymentSpec (exampleInput (Some exampleCfg) [] ''first'') = Some exampleCfg
   \<and> MostRecentSuccessfulCommitHash (exampleInput (Some exampleCfg) [] ''first'') = []
   \<and> Plan exampleExternals (exampleWorld ''app:1.3 x3'') (exampleInput (Some exampleCfg) [] ''first'')
      = ((\<lparr>OutputStages = [(''K8S_SYNC'', 1600000000)],
           Description = ''Apply all manifests because it was unable to find the most recent successful commit.''\<rparr>,
          None), [])"
proof -
  have h1: "KubernetesDeploymentSpec (exampleInput (Some exampleCfg) [] ''first'') = Some exampleCfg"
    by (simp add: exampleInput_def)
  have h2: "MostRecentSuccessfulCommitHash (exampleInput (Some exampleCfg) [] ''first'') = []"
    by (simp add: exampleInput_def)
  show ?thesis
    using h1 h2 Plan_first_deployment [OF h1 h2, of exampleExternals "exampleWorld ''app:1.3 x3''"]
    by (simp add: exampleExternals_def exampleWorld_def)
qed

theorem Plan_first_deployment_counterexample:
  "MostRecentSuccessfulCommitHash (exampleInput None [] ''first'') = []
   \<and> Plan exampleExternals (exampleWorld ''app:1.3 x3'') (exampleInput None [] ''first'')
      = ((Output_zero, Some ''malfored deployment configuration: missing KubernetesDeploymentSpec''), [])
   \<and> OutputStages (fst (fst (Plan exampleExternals (exampleWorld ''app:1.3 x3'') (exampleInput None [] ''first''))))
      \<noteq> buildPipeline exampleExternals (Now (exampleWorld ''app:1.3 x3''))
   \<and> \<not> Contains (Description (fst (fst (Plan exampleExternals (exampleWorld ''app:1.3 x3'')
                                           (exampleInput None [] ''first'')))))
          ''unable to find the most recent successful commit''"
proof -
  have n: "KubernetesDeploymentSpec (exampleInput None [] ''first'') = None"
    by (simp add: exampleInput_def)
  have h: "MostRecentSuccessfulCommitHash (exampleInput None [] ''first'') = []"
    by (simp add: exampleInput_def)
  show ?thesis
    using h Plan_no_spec [OF n, of exampleExternals "exampleWorld ''app:1.3 x3''"]
      Output_zero_no_description
    by (simp add: exampleExternals_def Output_zero_def)
qed

text \<open>
  C2. Without a KubernetesDeploymentSpec \<open>Plan\<close> returns its error here too, whatever
  the commit message. For an input that has one, whose MostRecentSuccessfulCommitHash is not
  empty and whose commit message contains \<open>/pipecd rollback \<close>, \<open>Plan\<close> returns the
  stages of \<open>buildPipeline\<close> with the description \<open>Rollback from commit HASH.\<close>, no
  error, and performs no operation on the working tree; the result is the same in every
  working tree and with every diff function that agree on the QuickSync stages.
\<close>

theorem Plan_rollback_marker:
  assumes "KubernetesDeploymentSpec inp = Some cfg"
    and "MostRecentSuccessfulCommitHash inp \<noteq> []"
    and "Contains (Message (Commit (Trigger (Deployment inp)))) ''/pipecd rollback ''"
  shows "Plan E W inp =
           ((\<lparr>OutputStages = buildPipeline E (Now W),
              Description = ''Rollback from commit '' @ MostRecentSuccessfulCommitHash inp @ ''.''\<rparr>,
             None), [])
       \<and> (\<forall>E' W'. buildPipeline E' (Now W') = buildPipeline E (Now W)
             \<longrightarrow> Plan E' W' inp = Plan E W inp)"
  using assms by (simp add: Plan_def)

theorem Plan_rollback_marker_witness:
  "KubernetesDeploymentSpec (exampleInput (Some exampleCfg) ''abc123'' ''Revert (/pipecd rollback abc123)'')
     = Some exampleCfg
   \<and> Contains (Message (Commit (Trigger (Deployment
        (exampleInput (Some exampleCfg) ''abc123'' ''Revert (/pipecd rollback abc123)'')))))
        ''/pipecd rollback ''
   \<and> Plan exampleExternals (exampleWorld ''app:1.3 x3'')
        (exampleInput (Some exampleCfg) ''abc123'' ''Revert (/pipecd rollback abc123)'')
      = ((\<lparr>OutputStages = [(''K8S_SYNC'', 1600000000)],
           Description = ''Rollback from commit abc123.''\<rparr>, None), [])"
proof -
  let ?i = "exampleInput (Some exampleCfg) ''abc123'' ''Revert (/pipecd rollback abc123)''"
  have h1: "KubernetesDeploymentSpec ?i = Some exampleCfg"
    by (simp add: exampleInput_def)
  have h2: "MostRecentSuccessfulCommitHash ?i \<noteq> []"
    by (simp add: exampleInput_def)
  have h3: "Contains (Message (Commit (Trigger (Deployment ?i)))) ''/pipecd rollback ''"
    by (simp add: exampleInput_def)
  have "Plan exampleExternals (exampleWorld ''app:1.3 x3'') ?i
      = ((\<lparr>OutputStages = [(''K8S_SYNC'', 1600000000)],
           Description = ''Rollback from commit abc123.''\<rparr>, None), [])"
    using Plan_rollback_marker [OF h1 h2 h3, of exampleExternals "exampleWorld ''app:1.3 x3''",
        THEN conjunct1]
    by (simp add: exampleExternals_def exampleWorld_def exampleInput_def)
  then show ?thesis
    using h1 h3 by blast
qed

theorem Plan_rollback_marker_counterexample:
  "MostRecentSuccessfulCommitHash (exampleInput None ''abc123'' ''Revert (/pipecd rollback abc123)'') \<noteq> []
   \<and> Contains (Message (Commit (Trigger (Deployment
        (exampleInput None ''abc123'' ''Revert (/pipecd rollback abc123)'')))))
        ''/pipecd rollback ''
   \<and> Plan exampleExternals (exampleWorld ''app:1.3 x3'')
        (exampleInput None ''abc123'' ''Revert (/pipecd rollback abc123)'')
      = ((Output_zero, Some ''malfored deployment configuration: missing KubernetesDeploymentSpec''), [])
   \<and> OutputStages (fst (fst (Plan exampleExternals (exampleWorld ''app:1.3 x3'')
        (exampleInput None ''abc123'' ''Revert (/pipecd rollback abc123)''))))
      \<noteq> buildPipeline exampleExternals (Now (exampleWorld ''app:1.3 x3''))"
proof -
  let ?i = "exampleInput None ''abc123'' ''Revert (/pipecd rollback abc123)''"
  have n: "KubernetesDeploymentSpec ?i = None"
    by (simp add: exampleInput_def)
  have h2: "MostRecentSuccessfulCommitHash ?i \<noteq> []"
    by (simp add: exampleInput_def)
  have h3: "Contains (Message (Commit (Trigger (Deployment ?i)))) ''/pipecd rollback ''"
    by (simp add: exampleInput_def)
  show ?thesis
    using h2 h3 Plan_no_spec [OF n, of exampleExternals "exampleWorld ''app:1.3 x3''"]
    by (simp add: exampleExternals_def Output_zero_def)
qed

lemma Plan_manifestSets:
  assumes "KubernetesDeploymentSpec inp = Some cfg"
    and "MostRecentSuccessfulCommitHash inp \<noteq> []"
    and "\<not> Contains (Message (Commit (Trigger (Deployment inp)))) ''/pipecd rollback ''"
  shows "Plan E W inp =
           (case manifestSets W inp cfg of
              Inl (err, ops) \<Rightarrow> ((Output_zero, Some err), ops)
            | Inr (newManifests, oldManifests) \<Rightarrow>
                ((\<lparr>OutputStages =
                     (if fst (decideStrategy E oldManifests newManifests)
                      then buildProgressivePipeline E (k8sPipeline cfg) (Now W)
                      else buildPipeline E (Now W)),
                   Description = snd (decideStrategy E oldManifests newManifests)\<rparr>, None),
                 [OpInit, OpLoadManifests None, OpCheckout (MostRecentSuccessfulCommitHash inp),
                  OpLoadManifests (Some (MostRecentSuccessfulCommitHash inp))]))"
  using assms
  by (simp add: Plan_def manifestSets_def Let_def split: option.splits prod.splits)

text \<open>
  C5. The deployment configuration, the manifests and the commit message do not determine
  the plan. It also depends on the MostRecentSuccessfulCommitHash: two runs with the same
  configuration, the same commit message (with the rollback marker) and the same new and
  old manifests, whose hashes differ, give different descriptions. And \<open>Plan\<close> hands the
  reading of \<open>time.Now()\<close> to the pipeline builder, so with a builder that records it in the
  stages two runs that differ in the clock reading alone give different stage lists. Two
  runs of \<open>Plan\<close> give the same result when they agree on the KubernetesDeploymentSpec, the
  MostRecentSuccessfulCommitHash, the commit message, the clock reading and, where the run
  gets to load manifests, the new and old manifest sets.
\<close>

theorem Plan_depends_only_on:
  assumes "KubernetesDeploymentSpec i1 = KubernetesDeploymentSpec i2"
    and "MostRecentSuccessfulCommitHash i1 = MostRecentSuccessfulCommitHash i2"
    and "Message (Commit (Trigger (Deployment i1))) = Message (Commit (Trigger (Deployment i2)))"
    and "Now W1 = Now W2"
    and "\<forall>cfg. KubernetesDeploymentSpec i1 = Some cfg
            \<and> MostRecentSuccessfulCommitHash i1 \<noteq> []
            \<and> \<not> Contains (Message (Commit (Trigger (Deployment i1)))) ''/pipecd rollback ''
          \<longrightarrow> manifestSets W1 i1 cfg = manifestSets W2 i2 cfg"
  shows "Plan E W1 i1 = Plan E W2 i2"
proof (cases "KubernetesDeploymentSpec i1")
  case None
  then show ?thesis
    using assms(1) by (simp add: Plan_def)
next
  case (Some cfg)
  have s2: "KubernetesDeploymentSpec i2 = Some cfg"
    using Some assms(1) by simp
  show ?thesis
  proof (cases "MostRecentSuccessfulCommitHash i1 \<noteq> []
      \<and> \<not> Contains (Message (Commit (Trigger (Deployment i1)))) ''/pipecd rollback ''")
    case True
    then have m: "manifestSets W1 i1 cfg = manifestSets W2 i2 cfg"
      using assms(5) Some by simp
    have h2: "MostRecentSuccessfulCommitHash i2 \<noteq> []"
      "\<not> Contains (Message (Commit (Trigger (Deployment i2)))) ''/pipecd rollback ''"
      using True assms(2,3) by simp_all
    show ?thesis
      using Plan_manifestSets [OF Some, of E W1] Plan_manifestSets [OF s2 h2, of E W2] True m
        assms(2,4)
      by (simp split: sum.splits prod.splits)
  next
    case False
    then show ?thesis
      using Some s2 assms(2,3,4) by (auto simp: Plan_def)
  qed
qed

theorem Plan_depends_only_on_witness:
  "DeploymentId (Deployment (exampleInput (Some exampleCfg) ''abc123'' ''Bump image''))
     \<noteq> DeploymentId (Deployment ((exampleInput (Some exampleCfg) ''abc123'' ''Bump image'')
          \<lparr>Deployment :=
             \<lparr>DeploymentId = ''d-2'', ApplicationId = ''a-1'',
              Trigger = \<lparr>Commit = \<lparr>Hash = ''ffffff'', Message = ''Bump image'', Author = ''ops''\<rparr>,
                         Commander = ''admin''\<rparr>\<rparr>\<rparr>))
   \<and> Checkout (exampleWorld ''app:1.3 x3'') ''zzz''
     \<noteq> Checkout ((exampleWorld ''app:1.3 x3'')
          \<lparr>Checkout := (\<lambda>h. if h = ''zzz'' then Some ''unknown revision'' else None)\<rparr>) ''zzz''
   \<and> manifestSets (exampleWorld ''app:1.3 x3'')
        (exampleInput (Some exampleCfg) ''abc123'' ''Bump image'') exampleCfg
     = Inr ([serviceManifest, deploymentManifest ''app:1.3 x3''],
            [serviceManifest, deploymentManifest ''app:1.2 x3''])
   \<and> Plan exampleExternals (exampleWorld ''app:1.3 x3'')
        (exampleInput (Some exampleCfg) ''abc123'' ''Bump image'')
     = Plan exampleExternals
        ((exampleWorld ''app:1.3 x3'')
          \<lparr>Checkout := (\<lambda>h. if h = ''zzz'' then Some ''unknown revision'' else None)\<rparr>)
        ((exampleInput (Some exampleCfg) ''abc123'' ''Bump image'')
          \<lparr>Deployment :=
             \<lparr>DeploymentId = ''d-2'', ApplicationId = ''a-1'',
              Trigger = \<lparr>Commit = \<lparr>Hash = ''ffffff'', Message = ''Bump image'', Author = ''ops''\<rparr>,
                         Commander = ''admin''\<rparr>\<rparr>\<rparr>)"
proof -
  let ?i1 = "exampleInput (Some exampleCfg) ''abc123'' ''Bump image''"
  let ?i2 = "?i1\<lparr>Deployment :=
             \<lparr>DeploymentId = ''d-2'', ApplicationId = ''a-1'',
              Trigger = \<lparr>Commit = \<lparr>Hash = ''ffffff'', Message = ''Bump image'', Author = ''ops''\<rparr>,
                         Commander = ''admin''\<rparr>\<rparr>\<rparr>"
  let ?W1 = "exampleWorld ''app:1.3 x3''"
  let ?W2 = "?W1\<lparr>Checkout := (\<lambda>h. if h = ''zzz'' then Some ''unknown revision'' else None)\<rparr>"
  have h1: "KubernetesDeploymentSpec ?i1 = KubernetesDeploymentSpec ?i2"
    by simp
  have h2: "MostRecentSuccessfulCommitHash ?i1 = MostRecentSuccessfulCommitHash ?i2"
    by simp
  have h3: "Message (Commit (Trigger (Deployment ?i1))) = Message (Commit (Trigger (Deployment ?i2)))"
    by (simp add: exampleInput_def)
  have h4: "Now ?W1 = Now ?W2"
    by simp
  have m1: "manifestSets ?W1 ?i1 exampleCfg
     = Inr ([serviceManifest, deploymentManifest ''app:1.3 x3''],
            [serviceManifest, deploymentManifest ''app:1.2 x3''])"
    by (simp add: manifestSets_def Let_def exampleInput_def exampleWorld_def)
  have m2: "manifestSets ?W2 ?i2 exampleCfg
     = Inr ([serviceManifest, deploymentManifest ''app:1.3 x3''],
            [serviceManifest, deploymentManifest ''app:1.2 x3''])"
    by (simp add: manifestSets_def Let_def exampleInput_def exampleWorld_def)
  have h5: "\<forall>cfg. KubernetesDeploymentSpec ?i1 = Some cfg
            \<and> MostRecentSuccessfulCommitHash ?i1 \<noteq> []
            \<and> \<not> Contains (Message (Commit (Trigger (Deployment ?i1)))) ''/pipecd rollback ''
          \<longrightarrow> manifestSets ?W1 ?i1 cfg = manifestSets ?W2 ?i2 cfg"
    using m1 m2 by (simp add: exampleInput_def)
  have d: "DeploymentId (Deployment ?i1) \<noteq> DeploymentId (Deployment ?i2)"
    by (simp add: exampleInput_def)
  have c: "Checkout ?W1 ''zzz'' \<noteq> Checkout ?W2 ''zzz''"
    by (simp add: exampleWorld_def)
  show ?thesis
    using d c m1 Plan_depends_only_on [OF h1 h2 h3 h4 h5, of exampleExternals] by blast
qed

lemma Plan_example_progressive:
  "Plan exampleExternals ((exampleWorld ''app:1.3 x3'')\<lparr>Now := t\<rparr>)
     (exampleInput (Some exampleCfg) ''abc123'' ''Bump image'')
   = ((\<lparr>OutputStages = [(''K8S_CANARY_ROLLOUT'', t), (''K8S_PRIMARY_ROLLOUT'', t)],
        Description = ''Progressive deployment because of updating image app from 1.2 to 1.3.''\<rparr>,
       None),
      [OpInit, OpLoadManifests None, OpCheckout ''abc123'', OpLoadManifests (Some ''abc123'')])"
proof -
  have ds: "decideStrategy exampleExternals [serviceManifest, deploymentManifest ''app:1.2 x3'']
       [serviceManifest, deploymentManifest ''app:1.3 x3'']
     = (True, ''Progressive deployment because of updating image app from 1.2 to 1.3.'')"
    by (simp add: decideStrategy_def exampleExternals_def serviceManifest_def deploymentManifest_def
        exampleDiff_def imageDiff_def FindByPrefix_def checkImageChange_def FindAll_def
        containerImageQuery_def imageText_def parseContainerImage_12 parseContainerImage_13 Let_def)
  have c: "\<not> Contains ''Bump image'' ''/pipecd rollback ''"
    by simp
  show ?thesis
    using c
    by (simp add: Plan_def exampleInput_def exampleWorld_def Let_def ds)
      (simp add: exampleExternals_def)
qed

lemma Plan_example_rollback:
  "h \<noteq> [] \<Longrightarrow>
   Plan exampleExternals (exampleWorld ''app:1.3 x3'')
     (exampleInput (Some exampleCfg) h ''Revert (/pipecd rollback abc123)'')
   = ((\<lparr>OutputStages = [(''K8S_SYNC'', 1600000000)],
        Description = ''Rollback from commit '' @ h @ ''.''\<rparr>, None), [])"
  by (simp add: Plan_def exampleInput_def exampleWorld_def exampleExternals_def)

theorem Plan_depends_only_on_counterexample:
  "KubernetesDeploymentSpec (exampleInput (Some exampleCfg) ''abc123'' ''Revert (/pipecd rollback abc123)'')
     = KubernetesDeploymentSpec (exampleInput (Some exampleCfg) ''def456'' ''Revert (/pipecd rollback abc123)'')
   \<and> Message (Commit (Trigger (Deployment
        (exampleInput (Some exampleCfg) ''abc123'' ''Revert (/pipecd rollback abc123)''))))
     = Message (Commit (Trigger (Deployment
        (exampleInput (Some exampleCfg) ''def456'' ''Revert (/pipecd rollback abc123)''))))
   \<and> manifestSets (exampleWorld ''app:1.3 x3'')
        (exampleInput (Some exampleCfg) ''abc123'' ''Revert (/pipecd rollback abc123)'') exampleCfg
     = Inr ([serviceManifest, deploymentManifest ''app:1.3 x3''],
            [serviceManifest, deploymentManifest ''app:1.2 x3''])
   \<and> manifestSets (exampleWorld ''app:1.3 x3'')
        (exampleInput (Some exampleCfg) ''def456'' ''Revert (/pipecd rollback abc123)'') exampleCfg
     = Inr ([serviceManifest, deploymentManifest ''app:1.3 x3''],
            [serviceManifest, deploymentManifest ''app:1.2 x3''])
   \<and> fst (Plan exampleExternals (exampleWorld ''app:1.3 x3'')
            (exampleInput (Some exampleCfg) ''abc123'' ''Revert (/pipecd rollback abc123)''))
     = (\<lparr>OutputStages = [(''K8S_SYNC'', 1600000000)],
         Description = ''Rollback from commit abc123.''\<rparr>, None)
   \<and> fst (Plan exampleExternals (exampleWorld ''app:1.3 x3'')
            (exampleInput (Some exampleCfg) ''def456'' ''Revert (/pipecd rollback abc123)''))
     = (\<lparr>OutputStages = [(''K8S_SYNC'', 1600000000)],
         Description = ''Rollback from commit def456.''\<rparr>, None)
   \<and> fst (Plan exampleExternals (exampleWorld ''app:1.3 x3'')
            (exampleInput (Some exampleCfg) ''abc123'' ''Revert (/pipecd rollback abc123)''))
     \<noteq> fst (Plan exampleExternals (exampleWorld ''app:1.3 x3'')
            (exampleInput (Some exampleCfg) ''def456'' ''Revert (/pipecd rollback abc123)''))
   \<and> manifestSets ((exampleWorld ''app:1.3 x3'')\<lparr>Now := 1600000000\<rparr>)
        (exampleInput (Some exampleCfg) ''abc123'' ''Bump image'') exampleCfg
     = manifestSets ((exampleWorld ''app:1.3 x3'')\<lparr>Now := 1600000060\<rparr>)
        (exampleInput (Some exampleCfg) ''abc123'' ''Bump image'') exampleCfg
   \<and> OutputStages (fst (fst (Plan exampleExternals ((exampleWorld ''app:1.3 x3'')\<lparr>Now := 1600000000\<rparr>)
            (exampleInput (Some exampleCfg) ''abc123'' ''Bump image''))))
     = [(''K8S_CANARY_ROLLOUT'', 1600000000), (''K8S_PRIMARY_ROLLOUT'', 1600000000)]
   \<and> OutputStages (fst (fst (Plan exampleExternals ((exampleWorld ''app:1.3 x3'')\<lparr>Now := 1600000060\<rparr>)
            (exampleInput (Some exampleCfg) ''abc123'' ''Bump image''))))
     = [(''K8S_CANARY_ROLLOUT'', 1600000060), (''K8S_PRIMARY_ROLLOUT'', 1600000060)]
   \<and> fst (Plan exampleExternals ((exampleWorld ''app:1.3 x3'')\<lparr>Now := 1600000000\<rparr>)
            (exampleInput (Some exampleCfg) ''abc123'' ''Bump image''))
     \<noteq> fst (Plan exampleExternals ((exampleWorld ''app:1.3 x3'')\<lparr>Now := 1600000060\<rparr>)
            (exampleInput (Some exampleCfg) ''abc123'' ''Bump image''))"
proof -
  let ?m = "''Revert (/pipecd rollback abc123)''"
  let ?W = "exampleWorld ''app:1.3 x3''"
  have s: "KubernetesDeploymentSpec (exampleInput (Some exampleCfg) ''abc123'' ?m)
     = KubernetesDeploymentSpec (exampleInput (Some exampleCfg) ''def456'' ?m)"
    "Message (Commit (Trigger (Deployment (exampleInput (Some exampleCfg) ''abc123'' ?m))))
     = Message (Commit (Trigger (Deployment (exampleInput (Some exampleCfg) ''def456'' ?m))))"
    by (simp_all add: exampleInput_def)
  have ms: "manifestSets ?W (exampleInput (Some exampleCfg) ''abc123'' ?m) exampleCfg
     = Inr ([serviceManifest, deploymentManifest ''app:1.3 x3''],
            [serviceManifest, deploymentManifest ''app:1.2 x3''])"
    "manifestSets ?W (exampleInput (Some exampleCfg) ''def456'' ?m) exampleCfg
     = Inr ([serviceManifest, deploymentManifest ''app:1.3 x3''],
            [serviceManifest, deploymentManifest ''app:1.2 x3''])"
    by (simp_all add: manifestSets_def Let_def exampleInput_def exampleWorld_def)
  have p1: "fst (Plan exampleExternals ?W (exampleInput (Some exampleCfg) ''abc123'' ?m))
     = (\<lparr>OutputStages = [(''K8S_SYNC'', 1600000000)],
         Description = ''Rollback from commit abc123.''\<rparr>, None)"
    by (simp add: Plan_example_rollback)
  have p2: "fst (Plan exampleExternals ?W (exampleInput (Some exampleCfg) ''def456'' ?m))
     = (\<lparr>OutputStages = [(''K8S_SYNC'', 1600000000)],
         Description = ''Rollback from commit def456.''\<rparr>, None)"
    by (simp add: Plan_example_rollback)
  have ne: "fst (Plan exampleExternals ?W (exampleInput (Some exampleCfg) ''abc123'' ?m))
     \<noteq> fst (Plan exampleExternals ?W (exampleInput (Some exampleCfg) ''def456'' ?m))"
    unfolding p1 p2 by simp
  have mc: "manifestSets (?W\<lparr>Now := 1600000000\<rparr>)
        (exampleInput (Some exampleCfg) ''abc123'' ''Bump image'') exampleCfg
     = manifestSets (?W\<lparr>Now := 1600000060\<rparr>)
        (exampleInput (Some exampleCfg) ''abc123'' ''Bump image'') exampleCfg"
    by (simp add: manifestSets_def Let_def exampleWorld_def exampleInput_def)
  have c1: "OutputStages (fst (fst (Plan exampleExternals (?W\<lparr>Now := 1600000000\<rparr>)
            (exampleInput (Some exampleCfg) ''abc123'' ''Bump image''))))
     = [(''K8S_CANARY_ROLLOUT'', 1600000000), (''K8S_PRIMARY_ROLLOUT'', 1600000000)]"
    by (simp add: Plan_example_progressive)
  have c2: "OutputStages (fst (fst (Plan exampleExternals (?W\<lparr>Now := 1600000060\<rparr>)
            (exampleInput (Some exampleCfg) ''abc123'' ''Bump image''))))
     = [(''K8S_CANARY_ROLLOUT'', 1600000060), (''K8S_PRIMARY_ROLLOUT'', 1600000060)]"
    by (simp add: Plan_example_progressive)
  have nc: "fst (Plan exampleExternals (?W\<lparr>Now := 1600000000\<rparr>)
            (exampleInput (Some exampleCfg) ''abc123'' ''Bump image''))
     \<noteq> fst (Plan exampleExternals (?W\<lparr>Now := 1600000060\<rparr>)
            (exampleInput (Some exampleCfg) ''abc123'' ''Bump image''))"
    by (simp add: Plan_example_progressive)
  show ?thesis
    using s ms p1 p2 ne mc c1 c2 nc by blast
qed

subsection \<open>ECS executor\<close>

text \<open>
  C8. For every stage name other than ECSSync, \<open>Execute\<close> returns \<open>STAGE_FAILURE\<close> and
  never loads a task or service definition nor syncs. What it logs depends on how far it
  gets. When the deploy source cannot be prepared it returns at once, having logged
  \<open>Failed to prepare target deploy source data (ERROR)\<close>; when the deploy source has no
  ECSDeploymentSpec it returns having logged
  \<open>Malformed deployment configuration: missing ECSDeploymentSpec\<close>; when no cloud provider
  is found it returns without logging anything itself; and only when these three steps
  succeed does it reach the stage name and log \<open>Unsupported stage NAME for ECS application\<close>.
  So the unsupported-stage line is the reason of the failure in the last case only.
\<close>

theorem Execute_unsupported_stage:
  assumes "StageName (Stage e) \<noteq> StageECSSync X"
  shows "fst (Execute X e signal) = STAGE_FAILURE
       \<and> filter reachesCloud (snd (Execute X e signal)) = []
       \<and> (\<forall>err. GetReadOnly X = Inl err \<longrightarrow>
             Execute X e signal =
               (STAGE_FAILURE,
                [GetReadOnlyCalled,
                 Errorf (''Failed to prepare target deploy source data ('' @ err @ '')'')]))
       \<and> (\<forall>ds. GetReadOnly X = Inr ds \<and> ECSDeploymentSpec ds = None \<longrightarrow>
             Execute X e signal =
               (STAGE_FAILURE,
                [GetReadOnlyCalled,
                 Errorf ''Malformed deployment configuration: missing ECSDeploymentSpec'']))
       \<and> (\<forall>ds deployCfg. GetReadOnly X = Inr ds \<and> ECSDeploymentSpec ds = Some deployCfg
               \<and> findCloudProvider X e = None \<longrightarrow>
             Execute X e signal = (STAGE_FAILURE, [GetReadOnlyCalled, FindCloudProviderCalled]))
       \<and> (\<forall>ds deployCfg p. GetReadOnly X = Inr ds \<and> ECSDeploymentSpec ds = Some deployCfg
               \<and> findCloudProvider X e = Some p \<longrightarrow>
             Execute X e signal =
               (STAGE_FAILURE,
                [GetReadOnlyCalled, FindCloudProviderCalled,
                 Errorf (''Unsupported stage '' @ StageName (Stage e) @ '' for ECS application'')]))
       \<and> (if (\<exists>ds deployCfg p. GetReadOnly X = Inr ds \<and> ECSDeploymentSpec ds = Some deployCfg
                \<and> findCloudProvider X e = Some p)
          then snd (Execute X e signal) =
                 [GetReadOnlyCalled, FindCloudProviderCalled,
                  Errorf (''Unsupported stage '' @ StageName (Stage e) @ '' for ECS application'')]
          else Errorf (''Unsupported stage '' @ StageName (Stage e) @ '' for ECS application'')
                 \<notin> set (snd (Execute X e signal)))"
  using assms
  by (auto simp: Execute_def Let_def split: sum.splits option.splits prod.splits)

theorem Execute_unsupported_stage_witness:
  "StageName (Stage (exampleECSInput ''ECS_CANARY_ROLLOUT'')) \<noteq> StageECSSync exampleECS
   \<and> Execute exampleECS (exampleECSInput ''ECS_CANARY_ROLLOUT'') ''none''
     = (STAGE_FAILURE,
        [GetReadOnlyCalled, FindCloudProviderCalled,
         Errorf ''Unsupported stage ECS_CANARY_ROLLOUT for ECS application''])
   \<and> Execute (exampleECS\<lparr>GetReadOnly := Inr \<lparr>ECSDeploymentSpec = None, sourceDir = ''/tmp/deploysource''\<rparr>\<rparr>)
        (exampleECSInput ''ECS_CANARY_ROLLOUT'') ''none''
     = (STAGE_FAILURE,
        [GetReadOnlyCalled,
         Errorf ''Malformed deployment configuration: missing ECSDeploymentSpec''])
   \<and> Execute (exampleECS\<lparr>findCloudProvider := (\<lambda>e. None)\<rparr>)
        (exampleECSInput ''ECS_CANARY_ROLLOUT'') ''none''
     = (STAGE_FAILURE, [GetReadOnlyCalled, FindCloudProviderCalled])"
proof -
  let ?e = "exampleECSInput ''ECS_CANARY_ROLLOUT''"
  let ?X2 = "exampleECS\<lparr>GetReadOnly := Inr \<lparr>ECSDeploymentSpec = None, sourceDir = ''/tmp/deploysource''\<rparr>\<rparr>"
  let ?X3 = "exampleECS\<lparr>findCloudProvider := (\<lambda>e. None)\<rparr>"
  have h: "StageName (Stage ?e) \<noteq> StageECSSync exampleECS"
    by (simp add: exampleECSInput_def exampleECS_def)
  have h2: "StageName (Stage ?e) \<noteq> StageECSSync ?X2"
    by (simp add: exampleECSInput_def exampleECS_def)
  have h3: "StageName (Stage ?e) \<noteq> StageECSSync ?X3"
    by (simp add: exampleECSInput_def exampleECS_def)
  have n: "StageName (Stage ?e) = ''ECS_CANARY_ROLLOUT''"
    by (simp add: exampleECSInput_def)
  have f: "GetReadOnly exampleECS =
             Inr \<lparr>ECSDeploymentSpec =
                    Some \<lparr>TaskDefinitionFile = ''taskdef.yaml'', ServiceDefinitionFile = ''servicedef.yaml''\<rparr>,
                  sourceDir = ''/tmp/deploysource''\<rparr>
           \<and> ECSDeploymentSpec \<lparr>ECSDeploymentSpec =
                    Some \<lparr>TaskDefinitionFile = ''taskdef.yaml'', ServiceDefinitionFile = ''servicedef.yaml''\<rparr>,
                  sourceDir = ''/tmp/deploysource''\<rparr>
               = Some \<lparr>TaskDefinitionFile = ''taskdef.yaml'', ServiceDefinitionFile = ''servicedef.yaml''\<rparr>
           \<and> findCloudProvider exampleECS ?e = Some (''ecs-default'', ''region: us-east-1'')"
    by (simp add: exampleECS_def)
  have f2: "GetReadOnly ?X2 = Inr \<lparr>ECSDeploymentSpec = None, sourceDir = ''/tmp/deploysource''\<rparr>
           \<and> ECSDeploymentSpec \<lparr>ECSDeploymentSpec = None, sourceDir = ''/tmp/deploysource''\<rparr> = None"
    by simp
  have f3: "GetReadOnly ?X3 =
             Inr \<lparr>ECSDeploymentSpec =
                    Some \<lparr>TaskDefinitionFile = ''taskdef.yaml'', ServiceDefinitionFile = ''servicedef.yaml''\<rparr>,
                  sourceDir = ''/tmp/deploysource''\<rparr>
           \<and> ECSDeploymentSpec \<lparr>ECSDeploymentSpec =
                    Some \<lparr>TaskDefinitionFile = ''taskdef.yaml'', ServiceDefinitionFile = ''servicedef.yaml''\<rparr>,
                  sourceDir = ''/tmp/deploysource''\<rparr>
               = Some \<lparr>TaskDefinitionFile = ''taskdef.yaml'', ServiceDefinitionFile = ''servicedef.yaml''\<rparr>
           \<and> findCloudProvider ?X3 ?e = None"
    by (simp add: exampleECS_def)
  note t = Execute_unsupported_stage [OF h, of "''none''"]
  note t2 = Execute_unsupported_stage [OF h2, of "''none''"]
  note t3 = Execute_unsupported_stage [OF h3, of "''none''"]
  have a: "Execute exampleECS ?e ''none''
     = (STAGE_FAILURE,
        [GetReadOnlyCalled, FindCloudProviderCalled,
         Errorf ''Unsupported stage ECS_CANARY_ROLLOUT for ECS application''])"
    using t [THEN conjunct2, THEN conjunct2, THEN conjunct2, THEN conjunct2, THEN conjunct2,
        THEN conjunct1, rule_format, OF f]
    unfolding n by simp
  have b: "Execute ?X2 ?e ''none''
     = (STAGE_FAILURE,
        [GetReadOnlyCalled,
         Errorf ''Malformed deployment configuration: missing ECSDeploymentSpec''])"
    using t2 [THEN conjunct2, THEN conjunct2, THEN conjunct2, THEN conjunct1, rule_format, OF f2]
    by simp
  have c: "Execute ?X3 ?e ''none'' = (STAGE_FAILURE, [GetReadOnlyCalled, FindCloudProviderCalled])"
    using t3 [THEN conjunct2, THEN conjunct2, THEN conjunct2, THEN conjunct2, THEN conjunct1,
        rule_format, OF f3]
    by simp
  show ?thesis
    using h a b c by blast
qed

theorem Execute_unsupported_stage_counterexample:
  "StageName (Stage (exampleECSInput ''ECS_CANARY_ROLLOUT''))
     \<noteq> StageECSSync (exampleECS\<lparr>GetReadOnly := Inl ''failed to clone''\<rparr>)
   \<and> Execute (exampleECS\<lparr>GetReadOnly := Inl ''failed to clone''\<rparr>)
        (exampleECSInput ''ECS_CANARY_ROLLOUT'') ''none''
     = (STAGE_FAILURE,
        [GetReadOnlyCalled,
         Errorf ''Failed to prepare target deploy source data (failed to clone)''])
   \<and> Errorf ''Unsupported stage ECS_CANARY_ROLLOUT for ECS application''
       \<notin> set (snd (Execute (exampleECS\<lparr>GetReadOnly := Inl ''failed to clone''\<rparr>)
                      (exampleECSInput ''ECS_CANARY_ROLLOUT'') ''none''))"
  by (simp add: Execute_def exampleECS_def exampleECSInput_def)

subsection \<open>Command line flags\<close>

text \<open>
  C9. Both subcommands define \<open>--config-file\<close>, \<open>--admin-port\<close> with default 9085 and
  \<open>--grace-period\<close> with default 30 seconds (piped) and 15 seconds (ops). The piped
  command marks \<open>--config-file\<close> required; the ops command defines the flag and marks
  nothing required.
\<close>

theorem ops_config_file_not_required:
  "(case NewCommand os of
      Inl msg \<Rightarrow> (\<exists>err. UserHomeDir os = Inl err)
    | Inr cmd \<Rightarrow>
        ''config-file'' \<in> set (Required cmd)
      \<and> map_option DefValue (Lookup cmd ''admin-port'') = Some (IntValue 9085)
      \<and> map_option DefValue (Lookup cmd ''grace-period'') = Some (DurationValue (30 * 1000000000)))
   \<and> (\<exists>cmd. NewCommand exampleOS = Inr cmd \<and> Required cmd = [''config-file''])
   \<and> map_option DefValue (Lookup NewOpsCommand ''config-file'') = Some (StringValue [])
   \<and> Required NewOpsCommand = []
   \<and> ''config-file'' \<notin> set (Required NewOpsCommand)
   \<and> map_option DefValue (Lookup NewOpsCommand ''admin-port'') = Some (IntValue 9085)
   \<and> map_option DefValue (Lookup NewOpsCommand ''grace-period'') = Some (DurationValue (15 * 1000000000))"
  by (simp add: NewCommand_def NewOpsCommand_def exampleOS_def Var_def MarkFlagRequired_def
      Lookup_def Second_def Let_def split: sum.splits)


end
